theory Spec2Isabelle
  imports Main "HOL-Library.Word" "HOL-Library.Signed_Division" "HOL-Library.Sublist"
begin

section \<open>Go primitives used by the two programs\<close>

text \<open>
  The repository holds two Go programs: \<^verbatim>\<open>chop\<close> (cuts a spritesheet into sprites, from a
  JSON grid description or from a stylesheet) and \<^verbatim>\<open>positions\<close> (turns the stylesheet into a
  table of sprite positions). Both are embedded below, function by function.

  Go's \<^verbatim>\<open>int\<close> is taken at its 64-bit width: \<open>+\<close>, \<open>-\<close> and \<open>*\<close> wrap around, comparisons are
  signed (\<open><s\<close>), and \<^verbatim>\<open>/\<close> and \<^verbatim>\<open>%\<close> truncate towards zero. Division by zero is a run-time
  panic in Go; every division below is guarded by the test that raises it.
\<close>

type_synonym go_int = "64 word"

definition quo :: "go_int \<Rightarrow> go_int \<Rightarrow> go_int" where
  "quo a b = word_of_int (sint a sdiv sint b)"

definition rem :: "go_int \<Rightarrow> go_int \<Rightarrow> go_int" where
  "rem a b = word_of_int (sint a smod sint b)"

subsection \<open>Package strings\<close>

text \<open>
  Go strings are byte sequences, as \<^typ>\<open>string\<close> is. \<^verbatim>\<open>strings.Split\<close> is only ever called
  with a one-byte separator (\<^verbatim>\<open>"."\<close> and \<^verbatim>\<open>"\n"\<close>); it returns the pieces between the
  separators, so the empty string gives one empty piece.
\<close>

definition HasPrefix :: "string \<Rightarrow> string \<Rightarrow> bool" where
  "HasPrefix s p = (take (length p) s = p)"

definition TrimPrefix :: "string \<Rightarrow> string \<Rightarrow> string" where
  "TrimPrefix s p = (if HasPrefix s p then drop (length p) s else s)"

definition HasSuffix :: "string \<Rightarrow> string \<Rightarrow> bool" where
  "HasSuffix s p = (length p \<le> length s \<and> drop (length s - length p) s = p)"

fun Split :: "string \<Rightarrow> char \<Rightarrow> string list" where
  "Split [] sep = [[]]"
| "Split (c # cs) sep =
     (if c = sep then [] # Split cs sep
      else (case Split cs sep of [] \<Rightarrow> [[c]] | seg # segs \<Rightarrow> (c # seg) # segs))"

definition newline :: char where
  "newline = CHR 0x0A"

subsection \<open>Decimal output: \<^verbatim>\<open>strconv.Itoa\<close> and the verbs \<^verbatim>\<open>%d\<close>, \<^verbatim>\<open>%03d\<close>\<close>

definition digit_char :: "nat \<Rightarrow> char" where
  "digit_char d = ''0123456789'' ! d"

function decimal :: "nat \<Rightarrow> string" where
  "decimal n = (if n < 10 then [digit_char n] else decimal (n div 10) @ [digit_char (n mod 10)])"
  by pat_completeness auto
termination
  by (relation "measure id") auto

declare decimal.simps [simp del]

definition magnitude :: "go_int \<Rightarrow> nat" where
  "magnitude i = nat \<bar>sint i\<bar>"

text \<open>\<^verbatim>\<open>strconv.Itoa(i)\<close>; \<^verbatim>\<open>fmt\<close>'s plain \<^verbatim>\<open>%d\<close> prints an \<^verbatim>\<open>int\<close> the same way.\<close>

definition Itoa :: "go_int \<Rightarrow> string" where
  "Itoa i = (if i <s 0 then CHR ''-'' # decimal (magnitude i) else decimal (magnitude i))"

definition zero_pad :: "nat \<Rightarrow> string \<Rightarrow> string" where
  "zero_pad n s = replicate (n - length s) (CHR ''0'') @ s"

text \<open>
  \<^verbatim>\<open>fmt.Sprintf("%03d", i)\<close>: the digits are padded with zeros to a field of three, in
  which a minus sign takes one place.
\<close>

definition Sprintf_03d :: "go_int \<Rightarrow> string" where
  "Sprintf_03d i =
     (if i <s 0 then CHR ''-'' # zero_pad 2 (decimal (magnitude i))
      else zero_pad 3 (decimal (magnitude i)))"

subsection \<open>Decimal input: \<^verbatim>\<open>strconv.Atoi\<close>\<close>

definition is_digit :: "char \<Rightarrow> bool" where
  "is_digit c = (48 \<le> (of_char c :: nat) \<and> (of_char c :: nat) \<le> 57)"

definition digit_value :: "char \<Rightarrow> nat" where
  "digit_value c = of_char c - 48"

datatype num_error = ErrSyntax | ErrRange

text \<open>
  The digit loop of \<^verbatim>\<open>strconv.ParseUint(s, 10, 64)\<close>: it stops with a syntax error at the
  first byte that is no digit, and with a range error as soon as the value leaves 64 bits.
\<close>

fun ParseUint :: "string \<Rightarrow> nat \<Rightarrow> num_error + nat" where
  "ParseUint [] n = Inr n"
| "ParseUint (c # cs) n =
     (if \<not> is_digit c then Inl ErrSyntax
      else if 2 ^ 64 \<le> n * 10 + digit_value c then Inl ErrRange
      else ParseUint cs (n * 10 + digit_value c))"

text \<open>
  \<^verbatim>\<open>strconv.Atoi(s)\<close> returns a value together with an error: a syntax error comes with 0,
  a range error with the nearest representable \<^verbatim>\<open>int\<close>.
\<close>

definition Atoi :: "string \<Rightarrow> go_int \<times> num_error option" where
  "Atoi s =
     (let neg = (s \<noteq> [] \<and> hd s = CHR ''-'');
          ds = (if s \<noteq> [] \<and> (hd s = CHR ''-'' \<or> hd s = CHR ''+'') then tl s else s)
      in if ds = [] then (0, Some ErrSyntax)
         else (case ParseUint ds 0 of
                 Inl ErrSyntax \<Rightarrow> (0, Some ErrSyntax)
               | Inl ErrRange \<Rightarrow> (if neg then - (2 ^ 63) else 2 ^ 63 - 1, Some ErrRange)
               | Inr un \<Rightarrow>
                   if \<not> neg \<and> 2 ^ 63 \<le> un then (2 ^ 63 - 1, Some ErrRange)
                   else if neg \<and> 2 ^ 63 < un then (- (2 ^ 63), Some ErrRange)
                   else (if neg then - of_nat un else of_nat un, None)))"

subsection \<open>Package image\<close>

record Point =
  X :: go_int
  Y :: go_int

record Rectangle =
  Min_pt :: Point
  Max_pt :: Point

definition Dx :: "Rectangle \<Rightarrow> go_int" where
  "Dx r = X (Max_pt r) - X (Min_pt r)"

definition Dy :: "Rectangle \<Rightarrow> go_int" where
  "Dy r = Y (Max_pt r) - Y (Min_pt r)"

definition Size :: "Rectangle \<Rightarrow> Point" where
  "Size r = \<lparr>X = X (Max_pt r) - X (Min_pt r), Y = Y (Max_pt r) - Y (Min_pt r)\<rparr>"

text \<open>\<^verbatim>\<open>image.Rect(x0, y0, x1, y1)\<close> orders its corners.\<close>

definition Rect :: "go_int \<Rightarrow> go_int \<Rightarrow> go_int \<Rightarrow> go_int \<Rightarrow> Rectangle" where
  "Rect x0 y0 x1 y1 =
     \<lparr>Min_pt = \<lparr>X = (if x1 <s x0 then x1 else x0), Y = (if y1 <s y0 then y1 else y0)\<rparr>,
      Max_pt = \<lparr>X = (if x1 <s x0 then x0 else x1), Y = (if y1 <s y0 then y0 else y1)\<rparr>\<rparr>"

text \<open>
  Of a decoded image the programs read the bounds only; the pixels go from the sheet to
  the sprite inside \<^verbatim>\<open>draw.Draw\<close>, which copies the rectangle of the sprite's size whose
  top-left corner in the sheet is the given source point.
\<close>

record Image =
  Bounds :: Rectangle

section \<open>The chop program\<close>

subsection \<open>Data\<close>

record Pokemon =
  ID :: go_int
  Form :: "string option"
  Skip :: bool
  SkipCount :: go_int

record Data =
  Filename :: string
  Columns :: go_int
  Rows :: go_int
  Outline :: go_int
  Padding :: go_int
  Suffix :: "string option"
  Pokemon :: "Pokemon list"

text \<open>
  A sprite written by \<^verbatim>\<open>png.Encode\<close>: the path of the file, the bounds of the new image and
  the point of the sheet its pixels were copied from.
\<close>

record png_file =
  name :: string
  bounds :: Rectangle
  src_point :: Point

datatype panic =
  ReadFileFailed
  | UnmarshalFailed
  | OpenFailed
  | DecodeFailed
  | DivideByZero
  | NewRGBAFailed
  | CreateFailed
  | EncodeFailed

text \<open>
  What the operating system and the standard library decide is a parameter of the model:
  \<^item> \<open>ReadFile\<close>, \<open>Open\<close>: the contents of a file, or \<open>None\<close> for an error;
  \<^item> \<open>Unmarshal\<close>, \<open>Decode\<close>: \<^verbatim>\<open>json.Unmarshal\<close> into \<open>Data\<close> and \<^verbatim>\<open>image.Decode\<close>;
  \<^item> \<open>NewRGBA\<close>: whether \<^verbatim>\<open>image.NewRGBA\<close> returns for these bounds (it panics otherwise);
  \<^item> \<open>Create\<close>, \<open>Encode\<close>: whether \<^verbatim>\<open>os.Create\<close> and \<^verbatim>\<open>png.Encode\<close> return no error;
  \<^item> \<open>Dir\<close>, \<open>Join\<close>: \<^verbatim>\<open>filepath.Dir\<close> and \<^verbatim>\<open>filepath.Join\<close>;
  \<^item> \<open>lineRE\<close>: \<^verbatim>\<open>lineRE.FindStringSubmatch\<close> of the stylesheet mode, giving the five
    capture groups of a matching line (\<^verbatim>\<open>matches[1]\<close> to \<^verbatim>\<open>matches[5]\<close>);
  \<^item> \<open>Sscanf_d\<close>: the number \<^verbatim>\<open>fmt.Sscanf(s, "%d", &n)\<close> leaves in \<^verbatim>\<open>n\<close>.
\<close>

record env =
  ReadFile :: "string \<Rightarrow> string option"
  Open :: "string \<Rightarrow> string option"
  Unmarshal :: "string \<Rightarrow> Data option"
  Decode :: "string \<Rightarrow> Image option"
  NewRGBA :: "Rectangle \<Rightarrow> bool"
  Create :: "string \<Rightarrow> bool"
  Encode :: "Rectangle \<Rightarrow> bool"
  Dir :: "string \<Rightarrow> string"
  Join :: "string \<Rightarrow> string \<Rightarrow> string"
  lineRE :: "string \<Rightarrow> (string \<times> string \<times> string \<times> string \<times> string) option"
  Sscanf_d :: "string \<Rightarrow> go_int"

definition atoi :: "env \<Rightarrow> string \<Rightarrow> go_int" where
  "atoi e s = Sscanf_d e s"

text \<open>
  What a run has done to the outside: the strings written to standard output and to
  standard error, the paths \<^verbatim>\<open>os.Create\<close> has opened and the sprites encoded, each in the
  order of the calls. (The text the Go runtime prints for a panic is not part of it.)
\<close>

record effects =
  stdout :: "string list"
  stderr :: "string list"
  created :: "string list"
  encoded :: "png_file list"

definition no_effects :: effects where
  "no_effects = \<lparr>stdout = [], stderr = [], created = [], encoded = []\<rparr>"

definition Println :: "effects \<Rightarrow> string \<Rightarrow> effects" where
  "Println st s = st\<lparr>stdout := stdout st @ [s @ [newline]]\<rparr>"

subsection \<open>Grid mode: \<^verbatim>\<open>chopFromJSON\<close>\<close>

text \<open>
  The state of the loop: what the run has done so far and the grid-slot cursor
  \<^verbatim>\<open>spriteIndex\<close>.
\<close>

record json_state = effects +
  spriteIndex :: go_int

text \<open>The output path of an entry (lines 221 to 229).\<close>

definition outName :: "Data \<Rightarrow> Pokemon \<Rightarrow> string" where
  "outName data pokemon =
     (let n = ''./images/'' @ Sprintf_03d (ID pokemon);
          n = (case Suffix data of None \<Rightarrow> n | Some sfx \<Rightarrow> n @ ''-'' @ sfx);
          n = (case Form pokemon of None \<Rightarrow> n | Some f \<Rightarrow> n @ ''-'' @ f)
      in n @ ''.png'')"

text \<open>
  The body of the loop over \<^verbatim>\<open>data.Pokemon\<close> (lines 203 to 244), with \<^verbatim>\<open>height\<close> and
  \<^verbatim>\<open>width\<close> as computed before the loop. A panic comes with the state reached.
\<close>

definition chop_pokemon ::
  "env \<Rightarrow> Image \<Rightarrow> Data \<Rightarrow> go_int \<Rightarrow> go_int \<Rightarrow> json_state \<Rightarrow> Pokemon
    \<Rightarrow> (panic \<times> json_state) + json_state" where
  "chop_pokemon e img data height width st pokemon =
     (if Skip pokemon then
        (let pokemon = (if SkipCount pokemon = 0 then pokemon\<lparr>SkipCount := 1\<rparr> else pokemon)
         in Inr (st\<lparr>spriteIndex := spriteIndex st + SkipCount pokemon\<rparr>))
      else if Columns data = 0 then Inl (DivideByZero, st)
      else
        (let row = quo (spriteIndex st) (Columns data);
             column = rem (spriteIndex st) (Columns data);
             r = \<lparr>Min_pt = \<lparr>X = 0, Y = 0\<rparr>,
                  Max_pt = \<lparr>X = width - 2 * Padding data, Y = height - 2 * Padding data\<rparr>\<rparr>
         in if \<not> NewRGBA e r then Inl (NewRGBAFailed, st)
            else
              (let p = \<lparr>X = column * height + (column + 1) * Outline data + Padding data,
                        Y = row * width + (row + 1) * Outline data + Padding data\<rparr>;
                   out = outName data pokemon
               in if \<not> Create e out then Inl (CreateFailed, st)
                  else if \<not> Encode e r
                    then Inl (EncodeFailed, st\<lparr>created := created st @ [out]\<rparr>)
                  else Inr (st\<lparr>created := created st @ [out],
                                encoded := encoded st @ [\<lparr>name = out, bounds = r, src_point = p\<rparr>],
                                spriteIndex := spriteIndex st + 1\<rparr>))))"

fun chop_loop ::
  "env \<Rightarrow> Image \<Rightarrow> Data \<Rightarrow> go_int \<Rightarrow> go_int \<Rightarrow> json_state \<Rightarrow> Pokemon list
    \<Rightarrow> (panic \<times> json_state) + json_state" where
  "chop_loop e img data height width st [] = Inr st"
| "chop_loop e img data height width st (pokemon # rest) =
     (case chop_pokemon e img data height width st pokemon of
        Inl failure \<Rightarrow> Inl failure
      | Inr st' \<Rightarrow> chop_loop e img data height width st' rest)"

definition json_start :: json_state where
  "json_start = \<lparr>stdout = [], stderr = [], created = [], encoded = [], spriteIndex = 0\<rparr>"

text \<open>Lines 198 to 245: the cell size, then the loop from cursor 0.\<close>

definition chop_sheet :: "env \<Rightarrow> Image \<Rightarrow> Data \<Rightarrow> (panic \<times> json_state) + json_state" where
  "chop_sheet e img data =
     (if Rows data = 0 then Inl (DivideByZero, json_start)
      else
        (let height = quo (Y (Size (Bounds img)) - ((Rows data + 1) * Outline data)) (Rows data)
         in if Columns data = 0 then Inl (DivideByZero, json_start)
            else
              (let width =
                     quo (X (Size (Bounds img)) - ((Columns data + 1) * Outline data)) (Columns data)
               in chop_loop e img data height width json_start (Pokemon data))))"

definition chopFromJSON :: "env \<Rightarrow> string \<Rightarrow> (panic \<times> json_state) + json_state" where
  "chopFromJSON e filename =
     (case ReadFile e filename of
        None \<Rightarrow> Inl (ReadFileFailed, json_start)
      | Some raw \<Rightarrow>
          (case Unmarshal e raw of
             None \<Rightarrow> Inl (UnmarshalFailed, json_start)
           | Some data \<Rightarrow>
               (case Open e (Filename data) of
                  None \<Rightarrow> Inl (OpenFailed, json_start)
                | Some spritesheet \<Rightarrow>
                    (case Decode e spritesheet of
                       None \<Rightarrow> Inl (DecodeFailed, json_start)
                     | Some img \<Rightarrow> chop_sheet e img data))))"

subsection \<open>Stylesheet mode: \<^verbatim>\<open>scssSelectorToFilename\<close>\<close>

text \<open>The four local variables of \<^verbatim>\<open>scssSelectorToFilename\<close>, empty and false at first.\<close>

record selector_vars =
  id' :: string
  form :: string
  gameFamily :: string
  shiny :: bool

definition selector_start :: selector_vars where
  "selector_start = \<lparr>id' = [], form = [], gameFamily = [], shiny = False\<rparr>"

text \<open>The \<^verbatim>\<open>switch\<close> on one segment (lines 143 to 155).\<close>

definition selector_switch :: "selector_vars \<Rightarrow> string \<Rightarrow> selector_vars" where
  "selector_switch v s =
     (if s = ''color-shiny'' then v\<lparr>shiny := True\<rparr>
      else if HasPrefix s ''form-'' then v\<lparr>form := TrimPrefix s ''form-''\<rparr>
      else if HasPrefix s ''game-family-''
        then v\<lparr>gameFamily := TrimPrefix s ''game-family-''\<rparr>
      else if HasPrefix s ''pkicon-'' then v
      else v\<lparr>id' := s\<rparr>)"

text \<open>The loop over the segments (lines 138 to 156).\<close>

definition selector_scan :: "string \<Rightarrow> selector_vars" where
  "selector_scan parts = foldl selector_switch selector_start (Split parts (CHR ''.''))"

text \<open>The name composed from the variables (lines 157 to 173).\<close>

definition selector_name :: "selector_vars \<Rightarrow> string" where
  "selector_name v =
     (if id' v = [] then []
      else if id' v = ''ball-love'' then ''love-ball.png''
      else
        (let n = id' v;
             n = (if shiny v then n @ ''-shiny'' else n);
             n = (if gameFamily v \<noteq> [] then n @ ''-'' @ gameFamily v else n);
             n = (if form v \<noteq> [] then n @ ''-'' @ form v else n)
         in n @ ''.png''))"

definition scssSelectorToFilename :: "string \<Rightarrow> string" where
  "scssSelectorToFilename parts = selector_name (selector_scan parts)"

subsection \<open>Stylesheet mode: \<^verbatim>\<open>chopFromSCSS\<close>\<close>

text \<open>The line written to standard error for a rectangle outside the sheet (line 108).\<close>

definition skip_message :: "string \<Rightarrow> go_int \<Rightarrow> go_int \<Rightarrow> go_int \<Rightarrow> go_int \<Rightarrow> string" where
  "skip_message out srcX srcY w h =
     ''chop: skip '' @ out @ '' (bounds '' @ Itoa srcX @ '','' @ Itoa srcY @ '' '' @
     Itoa w @ ''x'' @ Itoa h @ '' outside image)'' @ [newline]"

text \<open>The body of the loop over the lines (lines 88 to 126).\<close>

definition chop_line :: "env \<Rightarrow> Image \<Rightarrow> effects \<Rightarrow> string \<Rightarrow> (panic \<times> effects) + effects" where
  "chop_line e img st line =
     (case lineRE e line of
        None \<Rightarrow> Inr st
      | Some (selectorParts, m2, m3, m4, m5) \<Rightarrow>
          (let w = atoi e m2; h = atoi e m3; bgX = atoi e m4; bgY = atoi e m5;
               out = scssSelectorToFilename selectorParts
           in if out = [] then Inr st
              else
                (let srcX = - bgX; srcY = - bgY
                 in if srcX <s 0 \<or> srcY <s 0 \<or> Dx (Bounds img) <s srcX + w
                         \<or> Dy (Bounds img) <s srcY + h
                    then Inr (st\<lparr>stderr := stderr st @ [skip_message out srcX srcY w h]\<rparr>)
                    else
                      (let r = Rect 0 0 w h
                       in if \<not> NewRGBA e r then Inl (NewRGBAFailed, st)
                          else
                            (let outPath = Join e ''images'' out
                             in if \<not> Create e outPath then Inl (CreateFailed, st)
                                else if \<not> Encode e r
                                  then Inl (EncodeFailed, st\<lparr>created := created st @ [outPath]\<rparr>)
                                else Inr (st\<lparr>created := created st @ [outPath],
                                              encoded := encoded st @
                                                [\<lparr>name = outPath, bounds = r,
                                                  src_point = \<lparr>X = srcX, Y = srcY\<rparr>\<rparr>]\<rparr>))))))"

fun chop_lines :: "env \<Rightarrow> Image \<Rightarrow> effects \<Rightarrow> string list \<Rightarrow> (panic \<times> effects) + effects" where
  "chop_lines e img st [] = Inr st"
| "chop_lines e img st (line # rest) =
     (case chop_line e img st line of
        Inl failure \<Rightarrow> Inl failure
      | Inr st' \<Rightarrow> chop_lines e img st' rest)"

definition chopFromSCSS :: "env \<Rightarrow> string \<Rightarrow> (panic \<times> effects) + effects" where
  "chopFromSCSS e scssPath =
     (let dir = Dir e scssPath;
          pngPath = Join e dir ''pokesprite.png''
      in case ReadFile e scssPath of
           None \<Rightarrow> Inl (ReadFileFailed, no_effects)
         | Some raw \<Rightarrow>
             (case Open e pngPath of
                None \<Rightarrow> Inl (OpenFailed, no_effects)
              | Some imgFile \<Rightarrow>
                  (case Decode e imgFile of
                     None \<Rightarrow> Inl (DecodeFailed, no_effects)
                   | Some img \<Rightarrow> chop_lines e img no_effects (Split raw newline))))"

subsection \<open>The entry point\<close>

datatype ending = Returned | Exit nat | Panicked panic

definition main :: "env \<Rightarrow> string list \<Rightarrow> ending \<times> effects" where
  "main e Args =
     (if length Args \<noteq> 2 then
        (let st = Println no_effects ''Usage: task chop -- <filename.json|filename.scss>'';
             st = Println st ''  JSON: task chop -- ./data/spritesheet.json'';
             st = Println st ''  SCSS: task chop -- toExtractFrom/pokesprite.scss''
         in (Exit 1, st))
      else
        (let filename = Args ! 1
         in if HasSuffix filename ''.scss'' then
              (case chopFromSCSS e filename of
                 Inl (p, st) \<Rightarrow> (Panicked p, st)
               | Inr st \<Rightarrow> (Returned, st))
            else
              (case chopFromJSON e filename of
                 Inl (p, st) \<Rightarrow> (Panicked p, effects.truncate st)
               | Inr st \<Rightarrow> (Returned, effects.truncate st))))"

section \<open>The positions program\<close>

record SpritePosition =
  Width :: go_int
  Height :: go_int
  BackgroundPosition :: string

text \<open>The helper \<^verbatim>\<open>atoi\<close> of this program drops the error of \<^verbatim>\<open>strconv.Atoi\<close>.\<close>

definition atoi' :: "string \<Rightarrow> go_int" where
  "atoi' s = fst (Atoi s)"

text \<open>
  The regular expression of this program is a parameter as well: for a matching line it
  gives the eight capture groups \<^verbatim>\<open>m[1]\<close> to \<^verbatim>\<open>m[8]\<close>, an optional group that took no part
  in the match being the empty string.
\<close>

type_synonym submatch =
  "string \<times> string \<times> string \<times> string \<times> string \<times> string \<times> string \<times> string"

text \<open>The key of a rule (lines 334 to 343).\<close>

definition sprite_key :: "string \<Rightarrow> string \<Rightarrow> string \<Rightarrow> string \<Rightarrow> string" where
  "sprite_key pokemonID f g color =
     (let key = ''pokemon-'' @ Itoa (atoi' pokemonID);
          key = (if f \<noteq> [] then key @ ''-'' @ f else key);
          key = (if g \<noteq> [] then key @ ''-'' @ g else key);
          key = (if color = ''shiny'' then key @ ''-shiny'' else key)
      in key)"

text \<open>The body of the loop over the lines (lines 324 to 351).\<close>

definition position_line ::
  "(string \<Rightarrow> submatch option) \<Rightarrow> (string \<rightharpoonup> SpritePosition) \<times> string list \<Rightarrow> string
    \<Rightarrow> (string \<rightharpoonup> SpritePosition) \<times> string list" where
  "position_line re acc line =
     (case re line of
        None \<Rightarrow> acc
      | Some (pokemonID, f, g, color, m5, m6, xPos, yPos) \<Rightarrow>
          (let width = atoi' m5;
               height = atoi' m6;
               key = sprite_key pokemonID f g color
           in ((fst acc)(key \<mapsto>
                 \<lparr>Width = width, Height = height,
                  BackgroundPosition = xPos @ ''px '' @ yPos @ ''px''\<rparr>),
               snd acc @ [key])))"

definition extractSpritePositions ::
  "(string \<Rightarrow> submatch option) \<Rightarrow> string \<Rightarrow> (string \<rightharpoonup> SpritePosition) \<times> string list" where
  "extractSpritePositions re scss = foldl (position_line re) (Map.empty, []) (Split scss newline)"

section \<open>Notions of the specification\<close>

text \<open>
  A segment that the specification counts as a base token: it is not exactly
  \<^verbatim>\<open>color-shiny\<close> and starts with none of the three prefixes.
\<close>

definition base_segment :: "string \<Rightarrow> bool" where
  "base_segment s =
     (s \<noteq> ''color-shiny'' \<and> \<not> HasPrefix s ''form-'' \<and> \<not> HasPrefix s ''game-family-''
      \<and> \<not> HasPrefix s ''pkicon-'')"



text \<open>
  The grid-slot cursor of the specification: an entry moves it by one, a skipped entry by
  its \<^verbatim>\<open>skipCount\<close>, with zero counted as one. \<open>cursors i ps\<close> lists the cursor at which each
  entry of \<open>ps\<close> is met, starting from \<open>i\<close>.
\<close>

definition advance :: "Pokemon \<Rightarrow> go_int" where
  "advance p = (if Skip p then (if SkipCount p = 0 then 1 else SkipCount p) else 1)"

fun cursors :: "go_int \<Rightarrow> Pokemon list \<Rightarrow> go_int list" where
  "cursors i [] = []"
| "cursors i (p # ps) = i # cursors (i + advance p) ps"

text \<open>The entries that are not skipped, alone and with their cursors.\<close>

definition emitted :: "Pokemon list \<Rightarrow> Pokemon list" where
  "emitted ps = filter (\<lambda>p. \<not> Skip p) ps"

definition slots :: "go_int \<Rightarrow> Pokemon list \<Rightarrow> (go_int \<times> Pokemon) list" where
  "slots i ps = filter (\<lambda>(c, p). \<not> Skip p) (zip (cursors i ps) ps)"

text \<open>
  The sprite of the specification for an entry met at cursor \<open>i\<close>: cell size, row and column,
  top-left corner and size as section 4.1 gives them.
\<close>

definition grid_sprite :: "Image \<Rightarrow> Data \<Rightarrow> go_int \<Rightarrow> Pokemon \<Rightarrow> png_file" where
  "grid_sprite img data i p =
     (let row = quo i (Columns data);
          col = rem i (Columns data);
          cellHeight = quo (Dy (Bounds img) - (Rows data + 1) * Outline data) (Rows data);
          cellWidth = quo (Dx (Bounds img) - (Columns data + 1) * Outline data) (Columns data);
          x = col * cellHeight + (col + 1) * Outline data + Padding data;
          y = row * cellWidth + (row + 1) * Outline data + Padding data
      in \<lparr>name = outName data p,
          bounds = \<lparr>Min_pt = \<lparr>X = 0, Y = 0\<rparr>,
                    Max_pt = \<lparr>X = cellWidth - 2 * Padding data, Y = cellHeight - 2 * Padding data\<rparr>\<rparr>,
          src_point = \<lparr>X = x, Y = y\<rparr>\<rparr>)"


text \<open>The same sprite with the cell size left open, as the loop body sees it.\<close>

definition cell_sprite :: "Data \<Rightarrow> go_int \<Rightarrow> go_int \<Rightarrow> go_int \<Rightarrow> Pokemon \<Rightarrow> png_file" where
  "cell_sprite data height width i p =
     \<lparr>name = outName data p,
      bounds = \<lparr>Min_pt = \<lparr>X = 0, Y = 0\<rparr>,
                Max_pt = \<lparr>X = width - 2 * Padding data, Y = height - 2 * Padding data\<rparr>\<rparr>,
      src_point =
        \<lparr>X = rem i (Columns data) * height + (rem i (Columns data) + 1) * Outline data
               + Padding data,
         Y = quo i (Columns data) * width + (quo i (Columns data) + 1) * Outline data
               + Padding data\<rparr>\<rparr>"


text \<open>The state a run has reached, whether it returned or panicked.\<close>

definition reached :: "(panic \<times> 's) + 's \<Rightarrow> 's" where
  "reached r = (case r of Inl (failure, s) \<Rightarrow> s | Inr s \<Rightarrow> s)"

text \<open>
  The decimal value of a string of digits, and the string with its leading zeros
  stripped (a string of zeros alone keeps one).
\<close>

definition decimal_value :: "string \<Rightarrow> nat" where
  "decimal_value ds = foldl (\<lambda>n c. n * 10 + digit_value c) 0 ds"

definition strip_zeros :: "string \<Rightarrow> string" where
  "strip_zeros ds =
     (if dropWhile (\<lambda>c. c = CHR ''0'') ds = [] then ''0''
      else dropWhile (\<lambda>c. c = CHR ''0'') ds)"

text \<open>
  The effects of a first run followed by those of a second, and a result moved behind
  earlier effects.
\<close>

definition append_effects :: "effects \<Rightarrow> effects \<Rightarrow> effects" where
  "append_effects st d =
     \<lparr>stdout = stdout st @ stdout d, stderr = stderr st @ stderr d,
      created = created st @ created d, encoded = encoded st @ encoded d\<rparr>"

definition after :: "effects \<Rightarrow> (panic \<times> effects) + effects \<Rightarrow> (panic \<times> effects) + effects" where
  "after st r =
     (case r of
        Inl (failure, d) \<Rightarrow> Inl (failure, append_effects st d)
      | Inr d \<Rightarrow> Inr (append_effects st d))"

text \<open>
  The key and the data of a matching line of the positions program, and the rules of a
  stylesheet: those of its matching lines, in order.
\<close>

definition rule_of :: "submatch \<Rightarrow> string \<times> SpritePosition" where
  "rule_of m =
     (case m of (pokemonID, f, g, color, m5, m6, xPos, yPos) \<Rightarrow>
        (sprite_key pokemonID f g color,
         \<lparr>Width = atoi' m5, Height = atoi' m6,
          BackgroundPosition = xPos @ ''px '' @ yPos @ ''px''\<rparr>))"

definition rules :: "(string \<Rightarrow> submatch option) \<Rightarrow> string \<Rightarrow> (string \<times> SpritePosition) list" where
  "rules re scss = map rule_of (List.map_filter re (Split scss newline))"

section \<open>Concrete inputs\<close>

text \<open>
  An environment in which every file can be created, \<^verbatim>\<open>image.NewRGBA\<close> accepts bounds
  without a negative side and \<^verbatim>\<open>png.Encode\<close> accepts bounds with positive sides; a sheet of
  23 by 33 pixels; and a description of it as a grid of two columns and two rows with an
  outline of one pixel, whose second entry is skipped.
\<close>

definition sheet_env :: env where
  "sheet_env =
     \<lparr>ReadFile = (\<lambda>f. None), Open = (\<lambda>f. None), Unmarshal = (\<lambda>raw. None),
      Decode = (\<lambda>f. None),
      NewRGBA = (\<lambda>r. \<not> Dx r <s 0 \<and> \<not> Dy r <s 0),
      Create = (\<lambda>f. True),
      Encode = (\<lambda>r. 0 <s Dx r \<and> 0 <s Dy r),
      Dir = (\<lambda>f. ''.''), Join = (\<lambda>d f. d @ ''/'' @ f),
      lineRE = (\<lambda>l. None), Sscanf_d = atoi'\<rparr>"

definition sheet_img :: Image where
  "sheet_img = \<lparr>Bounds = \<lparr>Min_pt = \<lparr>X = 0, Y = 0\<rparr>, Max_pt = \<lparr>X = 23, Y = 33\<rparr>\<rparr>\<rparr>"

definition sheet_data :: Data where
  "sheet_data =
     \<lparr>Filename = ''sheet.png'', Columns = 2, Rows = 2, Outline = 1, Padding = 0,
      Suffix = Some ''legends_arceus'',
      Pokemon = [\<lparr>ID = 1, Form = None, Skip = False, SkipCount = 0\<rparr>,
                 \<lparr>ID = 2, Form = None, Skip = True, SkipCount = 0\<rparr>,
                 \<lparr>ID = 25, Form = Some ''cap'', Skip = False, SkipCount = 0\<rparr>,
                 \<lparr>ID = 26, Form = None, Skip = False, SkipCount = 0\<rparr>]\<rparr>"

definition sheet_sprites :: "png_file list" where
  "sheet_sprites =
     [\<lparr>name = ''./images/001-legends_arceus.png'',
       bounds = \<lparr>Min_pt = \<lparr>X = 0, Y = 0\<rparr>, Max_pt = \<lparr>X = 10, Y = 15\<rparr>\<rparr>,
       src_point = \<lparr>X = 1, Y = 1\<rparr>\<rparr>,
      \<lparr>name = ''./images/025-legends_arceus-cap.png'',
       bounds = \<lparr>Min_pt = \<lparr>X = 0, Y = 0\<rparr>, Max_pt = \<lparr>X = 10, Y = 15\<rparr>\<rparr>,
       src_point = \<lparr>X = 1, Y = 12\<rparr>\<rparr>,
      \<lparr>name = ''./images/026-legends_arceus.png'',
       bounds = \<lparr>Min_pt = \<lparr>X = 0, Y = 0\<rparr>, Max_pt = \<lparr>X = 10, Y = 15\<rparr>\<rparr>,
       src_point = \<lparr>X = 17, Y = 12\<rparr>\<rparr>]"

definition skipped :: "go_int \<Rightarrow> Pokemon" where
  "skipped n = \<lparr>ID = 0, Form = None, Skip = True, SkipCount = n\<rparr>"



text \<open>
  Three lines of a stylesheet with the capture groups \<^verbatim>\<open>lineRE\<close> of chop finds in them, and a
  sheet of 24 by 24 pixels. The first line has no base token, the rectangle of the first
  two (at 5,5 and 20 pixels wide) leaves the sheet, the third lies inside.
\<close>

definition rule_without_token :: string where
  "rule_without_token =
     ''.pkicon.pkicon-form-alola { width: 20px; height: 20px; background-position: -5px -5px; }''"

definition rule_outside :: string where
  "rule_outside =
     ''.pkicon.pkicon-001 { width: 20px; height: 20px; background-position: -5px -5px; }''"

definition rule_inside :: string where
  "rule_inside =
     ''.pkicon.pkicon-025.color-shiny { width: 10px; height: 10px; background-position: -1px -2px; }''"

definition scss_env :: env where
  "scss_env =
     sheet_env\<lparr>lineRE :=
       (\<lambda>line.
          if line = rule_without_token then Some (''form-alola'', ''20'', ''20'', ''-5'', ''-5'')
          else if line = rule_outside then Some (''001'', ''20'', ''20'', ''-5'', ''-5'')
          else if line = rule_inside then Some (''025.color-shiny'', ''10'', ''10'', ''-1'', ''-2'')
          else None)\<rparr>"

definition scss_img :: Image where
  "scss_img = \<lparr>Bounds = \<lparr>Min_pt = \<lparr>X = 0, Y = 0\<rparr>, Max_pt = \<lparr>X = 24, Y = 24\<rparr>\<rparr>\<rparr>"

text \<open>
  Two lines that the positions program gives the same key, with the capture groups of its
  \<^verbatim>\<open>lineRE\<close>.
\<close>

definition rule_padded :: string where
  "rule_padded =
     ''.pkicon.pkicon-001 { width: 20px; height: 19px; background-position: 0px -56px; }''"

definition rule_plain :: string where
  "rule_plain =
     ''.pkicon.pkicon-1 { width: 30px; height: 31px; background-position: -5px -6px; }''"

definition positions_re :: "string \<Rightarrow> submatch option" where
  "positions_re line =
     (if line = rule_padded then Some (''001'', [], [], [], ''20'', ''19'', ''0'', ''-56'')
      else if line = rule_plain then Some (''1'', [], [], [], ''30'', ''31'', ''-5'', ''-6'')
      else None)"

section \<open>Division\<close>

text \<open>
  Go's quotient is truncated towards zero and the remainder has the sign of the dividend.
  On a dividend that is not negative and a positive divisor they are the quotient and
  remainder of the integers.
\<close>

lemma quo_rem_truncate: "quo (- 7) 2 = - 3" "rem (- 7) 2 = - 1" "quo 7 (- 2) = - 3" "rem 7 (- 2) = 1"
  by (simp_all add: quo_def rem_def signed_divide_int_def signed_modulo_int_def)

lemma quo_rem_nonneg:
  assumes "\<not> a <s 0" and "0 <s b"
  shows "sint (quo a b) = sint a div sint b" and "sint (rem a b) = sint a mod sint b"
proof -
  from assms have a: "0 \<le> sint a" and b: "0 < sint b"
    by (simp_all add: word_sless_alt)
  have up: "sint a < 2 ^ 63"
    using sint_lt [of a] by simp
  from a b have q: "sint a sdiv sint b = sint a div sint b"
    and r: "sint a smod sint b = sint a mod sint b"
    by (simp_all add: signed_divide_int_def signed_modulo_int_def sgn_if)
  from a b have "0 \<le> sint a div sint b"
    by (simp add: pos_imp_zdiv_nonneg_iff)
  moreover from a have "sint a div sint b \<le> sint a"
    by (cases "sint a = 0") (simp_all add: int_div_le_self)
  ultimately have "0 \<le> sint a div sint b" and "sint a div sint b \<le> sint a"
    by simp_all
  with up show "sint (quo a b) = sint a div sint b"
    by (simp add: quo_def q signed_of_int signed_take_bit_int_eq_self)
  from a b have "0 \<le> sint a mod sint b" and "sint a mod sint b \<le> sint a"
    by (simp_all add: zmod_le_nonneg_dividend)
  with up show "sint (rem a b) = sint a mod sint b"
    by (simp add: rem_def r signed_of_int signed_take_bit_int_eq_self)
qed

section \<open>Decimal numbers\<close>

lemma decimal_digit: "n < 10 \<Longrightarrow> decimal n = [digit_char n]"
  by (simp add: decimal.simps)

lemma decimal_step: "d < 10 \<Longrightarrow> 0 < m \<Longrightarrow> decimal (m * 10 + d) = decimal m @ [digit_char d]"
  by (subst decimal.simps) simp

lemma digit_cases:
  assumes "is_digit c"
  shows "c \<in> set ''0123456789''"
proof -
  from assms have "of_char c \<in> {48..57::nat}"
    by (simp add: is_digit_def)
  then have "of_char c \<in> set [48, 49, 50, 51, 52, 53, 54, 55, 56, 57::nat]"
    by (simp add: atLeastAtMost_def) arith
  then have "char_of (of_char c :: nat) \<in> char_of ` set [48, 49, 50, 51, 52, 53, 54, 55, 56, 57::nat]"
    by (rule imageI)
  moreover have "map char_of [48, 49, 50, 51, 52, 53, 54, 55, 56, 57::nat] = ''0123456789''"
    by code_simp
  ultimately show ?thesis
    by (simp flip: set_map)
qed

lemma digit_char_value: "is_digit c \<Longrightarrow> digit_char (digit_value c) = c"
  by (drule digit_cases) (auto simp add: digit_char_def digit_value_def)

lemma digit_value_less: "is_digit c \<Longrightarrow> digit_value c < 10"
  by (auto simp add: is_digit_def digit_value_def)

lemma digit_value_zero: "is_digit c \<Longrightarrow> digit_value c = 0 \<longleftrightarrow> c = CHR ''0''"
  by (drule digit_cases) (auto simp add: digit_value_def)

lemma decimal_value_snoc:
  "decimal_value (ds @ [c]) = decimal_value ds * 10 + digit_value c"
  by (simp add: decimal_value_def)

lemma decimal_value_zero:
  "list_all is_digit ds \<Longrightarrow>
   decimal_value ds = 0 \<longleftrightarrow> dropWhile (\<lambda>c. c = CHR ''0'') ds = []"
proof (induction ds rule: rev_induct)
  case Nil
  show ?case by (simp add: decimal_value_def)
next
  case (snoc c ds)
  then show ?case
    by (auto simp add: decimal_value_snoc digit_value_zero dropWhile_eq_Nil_conv)
qed

lemma decimal_strip_zeros:
  "list_all is_digit ds \<Longrightarrow> decimal (decimal_value ds) = strip_zeros ds"
proof (induction ds rule: rev_induct)
  case Nil
  show ?case by (simp add: decimal_value_def strip_zeros_def digit_char_def decimal_digit)
next
  case (snoc c ds)
  then have c: "is_digit c" and ds: "list_all is_digit ds"
    by simp_all
  show ?case
  proof (cases "decimal_value ds = 0")
    case True
    with ds have zeros: "dropWhile (\<lambda>c. c = CHR ''0'') ds = []"
      by (simp add: decimal_value_zero)
    then have "\<forall>x \<in> set ds. x = CHR ''0''"
      by (simp add: dropWhile_eq_Nil_conv)
    then have "dropWhile (\<lambda>c. c = CHR ''0'') (ds @ [c]) = dropWhile (\<lambda>c. c = CHR ''0'') [c]"
      by (simp add: dropWhile_append2)
    with True c show ?thesis
      by (simp add: decimal_value_snoc strip_zeros_def digit_value_less digit_char_value
          decimal_digit digit_value_zero)
  next
    case False
    with ds have nz: "dropWhile (\<lambda>c. c = CHR ''0'') ds \<noteq> []"
      by (simp add: decimal_value_zero)
    then have "\<not> (\<forall>x \<in> set ds. x = CHR ''0'')"
      by (simp add: dropWhile_eq_Nil_conv)
    then have app:
      "dropWhile (\<lambda>c. c = CHR ''0'') (ds @ [c]) = dropWhile (\<lambda>c. c = CHR ''0'') ds @ [c]"
      by (simp add: dropWhile_append)
    have "decimal (decimal_value (ds @ [c])) = decimal (decimal_value ds) @ [c]"
      using False c
      by (simp add: decimal_value_snoc decimal_step digit_value_less digit_char_value)
    also have "decimal (decimal_value ds) = dropWhile (\<lambda>c. c = CHR ''0'') ds"
      using snoc.IH [OF ds] nz by (auto simp add: strip_zeros_def)
    also have "dropWhile (\<lambda>c. c = CHR ''0'') ds @ [c] = strip_zeros (ds @ [c])"
      unfolding strip_zeros_def app by simp
    finally show ?thesis .
  qed
qed

lemma foldl_digits_mono:
  "n \<le> foldl (\<lambda>n c. n * 10 + digit_value c) n ds"
proof (induction ds arbitrary: n)
  case Nil
  show ?case by simp
next
  case (Cons c ds)
  have "n \<le> n * 10 + digit_value c" by simp
  also have "\<dots> \<le> foldl (\<lambda>n c. n * 10 + digit_value c) (n * 10 + digit_value c) ds"
    by (rule Cons.IH)
  finally show ?case by simp
qed

lemma ParseUint_digits:
  "list_all is_digit ds \<Longrightarrow> n < 2 ^ 64 \<Longrightarrow>
   ParseUint ds n =
     (if foldl (\<lambda>n c. n * 10 + digit_value c) n ds < 2 ^ 64
      then Inr (foldl (\<lambda>n c. n * 10 + digit_value c) n ds) else Inl ErrRange)"
proof (induction ds arbitrary: n)
  case Nil
  then show ?case by simp
next
  case (Cons c ds)
  show ?case
  proof (cases "2 ^ 64 \<le> n * 10 + digit_value c")
    case True
    with foldl_digits_mono [of "n * 10 + digit_value c" ds]
    have "\<not> foldl (\<lambda>n c. n * 10 + digit_value c) (n * 10 + digit_value c) ds < 2 ^ 64"
      by simp
    with True Cons.prems show ?thesis by simp
  next
    case False
    with Cons show ?thesis by simp
  qed
qed

lemma digit_no_sign: "is_digit c \<Longrightarrow> c \<noteq> CHR ''-'' \<and> c \<noteq> CHR ''+''"
  by (auto simp add: is_digit_def)

lemma sint_of_nat_small:
  "v < 2 ^ 63 \<Longrightarrow> sint (of_nat v :: go_int) = int v"
proof -
  assume "v < 2 ^ 63"
  then have "int v < 2 ^ 63" by (simp add: of_nat_less_iff [of v "2 ^ 63", simplified])
  then show ?thesis
    by (simp add: signed_of_nat signed_take_bit_int_eq_self)
qed

lemma magnitude_of_nat: "v < 2 ^ 63 \<Longrightarrow> magnitude (of_nat v) = v"
  by (simp add: magnitude_def sint_of_nat_small)

lemma Itoa_of_nat: "v < 2 ^ 63 \<Longrightarrow> Itoa (of_nat v) = decimal v"
  by (simp add: Itoa_def magnitude_of_nat word_sless_alt sint_of_nat_small)

lemma Itoa_max: "Itoa 9223372036854775807 = ''9223372036854775807''"
  by (simp add: Itoa_def magnitude_def word_sless_alt decimal.simps digit_char_def)

lemma atoi_digits:
  assumes "ds \<noteq> []" and "list_all is_digit ds"
  shows "atoi' ds = (if decimal_value ds < 2 ^ 63 then of_nat (decimal_value ds) else 2 ^ 63 - 1)"
proof -
  from assms obtain c cs where ds: "ds = c # cs" and c: "is_digit c"
    by (cases ds) simp_all
  from c have sign: "hd ds \<noteq> CHR ''-''" "hd ds \<noteq> CHR ''+''"
    by (simp_all add: ds digit_no_sign)
  have "ParseUint ds 0 =
     (if decimal_value ds < 2 ^ 64 then Inr (decimal_value ds) else Inl ErrRange)"
    using ParseUint_digits [OF assms(2), of 0] by (simp add: decimal_value_def)
  with sign assms(1) show ?thesis
    by (simp add: atoi'_def Atoi_def)
qed

lemma zero_pad_3:
  "zero_pad 3 [a] = [CHR ''0'', CHR ''0'', a]"
  "zero_pad 3 [a, b] = [CHR ''0'', a, b]"
  "zero_pad 3 [a, b, c] = [a, b, c]"
  by (simp_all add: zero_pad_def numeral_2_eq_2)

lemma decimal_two_digits:
  assumes "10 \<le> n" and "n < 100"
  shows "decimal n = [digit_char (n div 10), digit_char (n mod 10)]"
proof -
  from assms have "n div 10 < 10" by simp
  with assms(1) show ?thesis
    by (subst decimal.simps) (simp add: decimal_digit)
qed

lemma decimal_three_digits:
  assumes "100 \<le> n" and "n < 1000"
  shows "decimal n = [digit_char (n div 100), digit_char (n div 10 mod 10), digit_char (n mod 10)]"
proof -
  from assms have "10 \<le> n div 10" and "n div 10 < 100" by simp_all
  from decimal_two_digits [OF this] assms(1) show ?thesis
    by (subst decimal.simps) (simp add: div_mult2_eq [of n 10 10, simplified])
qed

lemma zero_pad_decimal:
  assumes "n < 1000"
  shows "zero_pad 3 (decimal n) =
     [digit_char (n div 100), digit_char (n div 10 mod 10), digit_char (n mod 10)]"
proof -
  consider "n < 10" | "10 \<le> n" "n < 100" | "100 \<le> n"
    by linarith
  then show ?thesis
  proof cases
    case 1
    then show ?thesis
      by (simp add: decimal_digit zero_pad_3 digit_char_def)
  next
    case 2
    then show ?thesis
      by (simp add: decimal_two_digits zero_pad_3 digit_char_def)
  next
    case 3
    with assms show ?thesis
      by (simp add: decimal_three_digits zero_pad_3)
  qed
qed

lemma Sprintf_03d_three_digits:
  assumes "\<not> i <s 0" and "i <s 1000"
  shows "Sprintf_03d i =
     [digit_char (nat (sint i) div 100), digit_char (nat (sint i) div 10 mod 10),
      digit_char (nat (sint i) mod 10)]"
proof -
  from assms have "0 \<le> sint i" and "sint i < 1000"
    by (simp_all add: word_sless_alt)
  then have "magnitude i = nat (sint i)" and "nat (sint i) < 1000"
    by (simp_all add: magnitude_def)
  with assms(1) show ?thesis
    by (simp add: Sprintf_03d_def zero_pad_decimal)
qed

lemma decimal_not_empty: "decimal n \<noteq> []"
  by (subst decimal.simps) simp

lemma decimal_long:
  assumes "100 \<le> n"
  shows "3 \<le> length (decimal n)"
proof -
  from assms have a: "\<not> n < 10" and b: "\<not> n div 10 < 10"
    by simp_all
  have "decimal n = decimal (n div 10 div 10) @ [digit_char (n div 10 mod 10), digit_char (n mod 10)]"
    using a b by (subst decimal.simps, subst decimal.simps) simp
  moreover have "1 \<le> length (decimal (n div 10 div 10))"
    using decimal_not_empty [of "n div 10 div 10"] by (simp add: Suc_le_eq)
  ultimately show ?thesis by simp
qed

lemma Sprintf_03d_long:
  assumes "\<not> i <s 1000"
  shows "Sprintf_03d i = decimal (nat (sint i))"
proof -
  from assms have big: "1000 \<le> sint i"
    by (simp add: word_sless_alt)
  then have m: "magnitude i = nat (sint i)" and "100 \<le> nat (sint i)" and pos: "\<not> i <s 0"
    by (simp_all add: magnitude_def word_sless_alt)
  then have "3 \<le> length (decimal (nat (sint i)))"
    by (simp add: decimal_long)
  with m pos show ?thesis
    by (simp add: Sprintf_03d_def zero_pad_def)
qed

lemma is_digit_digit_char: "k < 10 \<Longrightarrow> is_digit (digit_char k)"
proof -
  assume "k < 10"
  then have "k \<in> set [0, 1, 2, 3, 4, 5, 6, 7, 8, 9::nat]"
    by (simp add: less_Suc_eq eval_nat_numeral)
  then show ?thesis
    by (auto simp add: digit_char_def is_digit_def)
qed

lemma decimal_digits: "list_all is_digit (decimal n)"
proof (induction n rule: decimal.induct)
  case (1 n)
  show ?case
  proof (cases "n < 10")
    case True
    then show ?thesis
      by (simp add: decimal_digit is_digit_digit_char)
  next
    case False
    with "1" have "list_all is_digit (decimal (n div 10))"
      by simp
    moreover have "is_digit (digit_char (n mod 10))"
      by (rule is_digit_digit_char) simp
    ultimately show ?thesis
      using False by (subst decimal.simps) simp
  qed
qed

lemma Itoa_no_newline: "newline \<notin> set (Itoa i)"
proof -
  have "\<not> is_digit newline"
    by (simp add: is_digit_def newline_def)
  with decimal_digits [of "magnitude i"] have "newline \<notin> set (decimal (magnitude i))"
    by (auto simp add: list_all_iff)
  then show ?thesis
    by (simp add: Itoa_def newline_def)
qed

section \<open>Grid mode\<close>

text \<open>Once the description and the sheet are read, \<^verbatim>\<open>chopFromJSON\<close> is \<open>chop_sheet\<close>.\<close>

lemma chopFromJSON_sheet:
  assumes "ReadFile e filename = Some raw" and "Unmarshal e raw = Some data"
    and "Open e (Filename data) = Some spritesheet" and "Decode e spritesheet = Some img"
  shows "chopFromJSON e filename = chop_sheet e img data"
  using assms by (simp add: chopFromJSON_def)

lemma chop_pokemon_skip:
  "Skip p \<Longrightarrow>
   chop_pokemon e img data h w st p = Inr (st\<lparr>spriteIndex := spriteIndex st + advance p\<rparr>)"
  by (simp add: chop_pokemon_def advance_def)

lemma chop_pokemon_emit:
  assumes "\<not> Skip p" and "chop_pokemon e img data h w st p = Inr st'"
  shows "st' = st\<lparr>created := created st @ [outName data p],
                  encoded := encoded st @ [cell_sprite data h w (spriteIndex st) p],
                  spriteIndex := spriteIndex st + advance p\<rparr>"
  using assms
  by (auto simp add: chop_pokemon_def advance_def cell_sprite_def Let_def split: if_splits)


lemma chop_loop_result:
  "chop_loop e img data h w st ps = Inr st' \<Longrightarrow>
   st' = st\<lparr>created := created st @ map (outName data) (emitted ps),
            encoded := encoded st @ map (\<lambda>(i, p). cell_sprite data h w i p) (slots (spriteIndex st) ps),
            spriteIndex := spriteIndex st + sum_list (map advance ps)\<rparr>"
proof (induction ps arbitrary: st)
  case Nil
  then show ?case by (simp add: emitted_def slots_def)
next
  case (Cons p ps)
  show ?case
  proof (cases "Skip p")
    case True
    with Cons.prems have "chop_loop e img data h w (st\<lparr>spriteIndex := spriteIndex st + advance p\<rparr>) ps = Inr st'"
      by (simp add: chop_pokemon_skip)
    from Cons.IH [OF this] True show ?thesis
      by (simp add: emitted_def slots_def add.assoc)
  next
    case False
    from Cons.prems obtain st1 where
      s1: "chop_pokemon e img data h w st p = Inr st1" and
      r: "chop_loop e img data h w st1 ps = Inr st'"
      by (auto split: sum.splits)
    from chop_pokemon_emit [OF False s1] Cons.IH [OF r] False show ?thesis
      by (simp add: emitted_def slots_def add.assoc)
  qed
qed

lemma chop_pokemon_reached:
  "\<not> Skip p \<Longrightarrow>
   encoded (reached (chop_pokemon e img data h w st p)) = encoded st
   \<or> (\<exists>st'. chop_pokemon e img data h w st p = Inr st')"
  by (simp add: chop_pokemon_def reached_def Let_def)

lemma chop_loop_reached:
  "prefix (encoded (reached (chop_loop e img data h w st ps)))
     (encoded st @ map (\<lambda>(i, p). cell_sprite data h w i p) (slots (spriteIndex st) ps))"
proof (induction ps arbitrary: st)
  case Nil
  show ?case by (simp add: reached_def slots_def)
next
  case (Cons p ps)
  show ?case
  proof (cases "chop_pokemon e img data h w st p")
    case (Inl failure)
    then have "\<not> Skip p"
      by (auto simp add: chop_pokemon_skip)
    with Inl chop_pokemon_reached [of p e img data h w st]
    have "encoded (reached (chop_pokemon e img data h w st p)) = encoded st"
      by auto
    with Inl show ?thesis
      by (simp add: reached_def)
  next
    case (Inr st1)
    show ?thesis
    proof (cases "Skip p")
      case True
      with Inr have "st1 = st\<lparr>spriteIndex := spriteIndex st + advance p\<rparr>"
        by (simp add: chop_pokemon_skip)
      with Cons.IH [of st1] Inr True show ?thesis
        by (simp add: slots_def)
    next
      case False
      from chop_pokemon_emit [OF False Inr] Cons.IH [of st1] Inr False show ?thesis
        by (simp add: slots_def)
    qed
  qed
qed


lemma grid_sprite_cell:
  "grid_sprite img data i p =
     cell_sprite data
       (quo (Y (Size (Bounds img)) - ((Rows data + 1) * Outline data)) (Rows data))
       (quo (X (Size (Bounds img)) - ((Columns data + 1) * Outline data)) (Columns data)) i p"
  by (simp add: grid_sprite_def cell_sprite_def Dx_def Dy_def Size_def Let_def)

lemma chop_sheet_loop:
  "Rows data \<noteq> 0 \<Longrightarrow> Columns data \<noteq> 0 \<Longrightarrow>
   chop_sheet e img data =
     chop_loop e img data
       (quo (Y (Size (Bounds img)) - ((Rows data + 1) * Outline data)) (Rows data))
       (quo (X (Size (Bounds img)) - ((Columns data + 1) * Outline data)) (Columns data))
       json_start (Pokemon data)"
  by (simp add: chop_sheet_def)

lemma chop_sheet_zero:
  "Rows data = 0 \<or> Columns data = 0 \<Longrightarrow> chop_sheet e img data = Inl (DivideByZero, json_start)"
  by (auto simp add: chop_sheet_def)



lemma sheet_names:
  "map (outName sheet_data) (Pokemon sheet_data) =
     [''./images/001-legends_arceus.png'', ''./images/002-legends_arceus.png'',
      ''./images/025-legends_arceus-cap.png'', ''./images/026-legends_arceus.png'']"
  by (simp add: sheet_data_def outName_def Sprintf_03d_def magnitude_def digit_char_def
      word_sless_alt zero_pad_3 decimal.simps)

lemma sheet_run:
  "chop_sheet sheet_env sheet_img sheet_data =
     Inr \<lparr>stdout = [], stderr = [], created = map name sheet_sprites,
          encoded = sheet_sprites, spriteIndex = 4\<rparr>"
  using sheet_names
  by (simp add: chop_sheet_def sheet_env_def sheet_img_def sheet_data_def sheet_sprites_def
      json_start_def chop_pokemon_def Size_def Dx_def Dy_def quo_def rem_def signed_divide_int_def
      signed_modulo_int_def word_sless_alt Let_def)

lemma sheet_step:
  "chop_pokemon sheet_env sheet_img sheet_data 15 10
     \<lparr>stdout = [], stderr = [], created = [], encoded = [], spriteIndex = 3\<rparr>
     \<lparr>ID = 26, Form = None, Skip = False, SkipCount = 0\<rparr>
   = Inr \<lparr>stdout = [], stderr = [], created = [''./images/026-legends_arceus.png''],
          encoded = [\<lparr>name = ''./images/026-legends_arceus.png'',
                      bounds = \<lparr>Min_pt = \<lparr>X = 0, Y = 0\<rparr>, Max_pt = \<lparr>X = 10, Y = 15\<rparr>\<rparr>,
                      src_point = \<lparr>X = 17, Y = 12\<rparr>\<rparr>],
          spriteIndex = 4\<rparr>"
  using sheet_names
  by (simp add: sheet_env_def sheet_data_def chop_pokemon_def Dx_def Dy_def quo_def rem_def
      signed_divide_int_def signed_modulo_int_def word_sless_alt Let_def)

text \<open>
  Claim C1. In grid mode the sprites encoded by a run are, in order, the sprites of the
  specification for the entries that are not skipped, each at the cursor \<open>i\<close> at which it
  is met: with \<open>row = i / columns\<close> and \<open>col = i % columns\<close>, the pixels come from the point
  \<open>x = col * cellHeight + (col + 1) * outline + padding\<close>,
  \<open>y = row * cellWidth + (row + 1) * outline + padding\<close>, where
  \<open>cellHeight = (imageHeight - (rows + 1) * outline) / rows\<close> and
  \<open>cellWidth = (imageWidth - (columns + 1) * outline) / columns\<close> with Go's truncating
  division, and the image has the size \<open>(cellWidth - 2 * padding, cellHeight - 2 * padding)\<close>.
  The column is scaled by the cell height and the row by the cell width. A run that
  panics has encoded a first part of that list; a run that returns has encoded all of it.
  The last part is the same statement for one pass through the loop body, at the cursor
  \<^verbatim>\<open>spriteIndex\<close> of the state.
\<close>

theorem grid_rectangles:
  "prefix (encoded (reached (chop_sheet e img data)))
     (map (\<lambda>(i, p). grid_sprite img data i p) (slots 0 (Pokemon data)))
   \<and> (chop_sheet e img data = Inr st' \<longrightarrow>
        encoded st' = map (\<lambda>(i, p). grid_sprite img data i p) (slots 0 (Pokemon data)))
   \<and> (\<not> Skip p \<and> chop_pokemon e img data h w st p = Inr st1 \<longrightarrow>
        encoded st1 = encoded st @
          [\<lparr>name = outName data p,
            bounds = \<lparr>Min_pt = \<lparr>X = 0, Y = 0\<rparr>,
                      Max_pt = \<lparr>X = w - 2 * Padding data, Y = h - 2 * Padding data\<rparr>\<rparr>,
            src_point =
              \<lparr>X = rem (spriteIndex st) (Columns data) * h
                     + (rem (spriteIndex st) (Columns data) + 1) * Outline data + Padding data,
               Y = quo (spriteIndex st) (Columns data) * w
                     + (quo (spriteIndex st) (Columns data) + 1) * Outline data + Padding data\<rparr>\<rparr>])"
proof -
  have step: "\<not> Skip p \<and> chop_pokemon e img data h w st p = Inr st1 \<longrightarrow>
        encoded st1 = encoded st @
          [\<lparr>name = outName data p,
            bounds = \<lparr>Min_pt = \<lparr>X = 0, Y = 0\<rparr>,
                      Max_pt = \<lparr>X = w - 2 * Padding data, Y = h - 2 * Padding data\<rparr>\<rparr>,
            src_point =
              \<lparr>X = rem (spriteIndex st) (Columns data) * h
                     + (rem (spriteIndex st) (Columns data) + 1) * Outline data + Padding data,
               Y = quo (spriteIndex st) (Columns data) * w
                     + (quo (spriteIndex st) (Columns data) + 1) * Outline data + Padding data\<rparr>\<rparr>]"
    using chop_pokemon_emit [of p e img data h w st st1]
    by (auto simp add: cell_sprite_def)
  have run: "prefix (encoded (reached (chop_sheet e img data)))
     (map (\<lambda>(i, p). grid_sprite img data i p) (slots 0 (Pokemon data)))
   \<and> (chop_sheet e img data = Inr st' \<longrightarrow>
        encoded st' = map (\<lambda>(i, p). grid_sprite img data i p) (slots 0 (Pokemon data)))"
  proof (cases "Rows data = 0 \<or> Columns data = 0")
    case True
    then show ?thesis
      by (simp add: chop_sheet_zero reached_def json_start_def)
  next
    case False
    then have loop: "chop_sheet e img data =
       chop_loop e img data
         (quo (Y (Size (Bounds img)) - ((Rows data + 1) * Outline data)) (Rows data))
         (quo (X (Size (Bounds img)) - ((Columns data + 1) * Outline data)) (Columns data))
         json_start (Pokemon data)"
      by (simp add: chop_sheet_loop)
    have "prefix (encoded (reached (chop_sheet e img data)))
       (map (\<lambda>(i, p). grid_sprite img data i p) (slots 0 (Pokemon data)))"
      unfolding loop grid_sprite_cell
      using chop_loop_reached [of e img data _ _ json_start "Pokemon data"]
      by (simp add: json_start_def)
    moreover have "chop_sheet e img data = Inr st' \<longrightarrow>
          encoded st' = map (\<lambda>(i, p). grid_sprite img data i p) (slots 0 (Pokemon data))"
    proof
      assume "chop_sheet e img data = Inr st'"
      from chop_loop_result [OF this [unfolded loop]] show
        "encoded st' = map (\<lambda>(i, p). grid_sprite img data i p) (slots 0 (Pokemon data))"
        by (simp add: json_start_def grid_sprite_cell)
    qed
    ultimately show ?thesis by simp
  qed
  from run step show ?thesis by blast
qed

theorem grid_rectangles_witness:
  "chop_sheet sheet_env sheet_img sheet_data
     = Inr \<lparr>stdout = [], stderr = [], created = map name sheet_sprites,
            encoded = sheet_sprites, spriteIndex = 4\<rparr>
   \<and> sheet_sprites =
       map (\<lambda>(i, p). grid_sprite sheet_img sheet_data i p) (slots 0 (Pokemon sheet_data))
   \<and> map src_point sheet_sprites = [\<lparr>X = 1, Y = 1\<rparr>, \<lparr>X = 1, Y = 12\<rparr>, \<lparr>X = 17, Y = 12\<rparr>]
   \<and> chop_pokemon sheet_env sheet_img sheet_data 15 10
       \<lparr>stdout = [], stderr = [], created = [], encoded = [], spriteIndex = 3\<rparr>
       \<lparr>ID = 26, Form = None, Skip = False, SkipCount = 0\<rparr>
     = Inr \<lparr>stdout = [], stderr = [], created = [''./images/026-legends_arceus.png''],
          encoded = [\<lparr>name = ''./images/026-legends_arceus.png'',
                      bounds = \<lparr>Min_pt = \<lparr>X = 0, Y = 0\<rparr>, Max_pt = \<lparr>X = 10, Y = 15\<rparr>\<rparr>,
                      src_point = \<lparr>X = 17, Y = 12\<rparr>\<rparr>],
          spriteIndex = 4\<rparr>
   \<and> rem 3 (Columns sheet_data) = 1 \<and> quo 3 (Columns sheet_data) = 1"
proof (intro conjI)
  show run: "chop_sheet sheet_env sheet_img sheet_data
     = Inr \<lparr>stdout = [], stderr = [], created = map name sheet_sprites,
            encoded = sheet_sprites, spriteIndex = 4\<rparr>"
    by (rule sheet_run)
  from grid_rectangles [of sheet_env sheet_img sheet_data
      "\<lparr>stdout = [], stderr = [], created = map name sheet_sprites,
            encoded = sheet_sprites, spriteIndex = 4\<rparr>"] run
  show "sheet_sprites =
       map (\<lambda>(i, p). grid_sprite sheet_img sheet_data i p) (slots 0 (Pokemon sheet_data))"
    by simp
  show "map src_point sheet_sprites = [\<lparr>X = 1, Y = 1\<rparr>, \<lparr>X = 1, Y = 12\<rparr>, \<lparr>X = 17, Y = 12\<rparr>]"
    by (simp add: sheet_sprites_def)
  show "chop_pokemon sheet_env sheet_img sheet_data 15 10
       \<lparr>stdout = [], stderr = [], created = [], encoded = [], spriteIndex = 3\<rparr>
       \<lparr>ID = 26, Form = None, Skip = False, SkipCount = 0\<rparr>
     = Inr \<lparr>stdout = [], stderr = [], created = [''./images/026-legends_arceus.png''],
          encoded = [\<lparr>name = ''./images/026-legends_arceus.png'',
                      bounds = \<lparr>Min_pt = \<lparr>X = 0, Y = 0\<rparr>, Max_pt = \<lparr>X = 10, Y = 15\<rparr>\<rparr>,
                      src_point = \<lparr>X = 17, Y = 12\<rparr>\<rparr>],
          spriteIndex = 4\<rparr>"
    by (rule sheet_step)
  show "rem 3 (Columns sheet_data) = 1" and "quo 3 (Columns sheet_data) = 1"
    by (simp_all add: sheet_data_def quo_def rem_def signed_divide_int_def
        signed_modulo_int_def)
qed







text \<open>
  Claim C3. The cursor starts at 0. A skipped entry moves it by its \<^verbatim>\<open>SkipCount\<close>, or by 1
  when that is zero, and never fails; an entry that is encoded moves it by 1. Over a list
  the moves add up in the order of the list; three skipped entries with the counts 2, 0
  and 3 take the cursor from 0 to 6.
\<close>

theorem cursor_advance:
  "spriteIndex json_start = 0
   \<and> (Skip p \<longrightarrow>
        chop_pokemon e img data h w st p =
          Inr (st\<lparr>spriteIndex := spriteIndex st + (if SkipCount p = 0 then 1 else SkipCount p)\<rparr>))
   \<and> (\<not> Skip p \<and> chop_pokemon e img data h w st p = Inr st1 \<longrightarrow>
        spriteIndex st1 = spriteIndex st + 1 \<and> length (encoded st1) = length (encoded st) + 1)
   \<and> (chop_loop e img data h w st ps = Inr st2 \<longrightarrow>
        spriteIndex st2 = spriteIndex st + sum_list (map advance ps))
   \<and> (chop_sheet e img data = Inr st3 \<longrightarrow>
        spriteIndex st3 = sum_list (map advance (Pokemon data)))
   \<and> chop_loop e img data h w json_start [skipped 2, skipped 0, skipped 3]
        = Inr (json_start\<lparr>spriteIndex := 6\<rparr>)"
proof (intro conjI impI)
  show "spriteIndex json_start = 0"
    by (simp add: json_start_def)
next
  assume "Skip p"
  then show "chop_pokemon e img data h w st p =
      Inr (st\<lparr>spriteIndex := spriteIndex st + (if SkipCount p = 0 then 1 else SkipCount p)\<rparr>)"
    by (simp add: chop_pokemon_skip advance_def)
next
  assume a: "\<not> Skip p \<and> chop_pokemon e img data h w st p = Inr st1"
  then have "st1 = st\<lparr>created := created st @ [outName data p],
                  encoded := encoded st @ [cell_sprite data h w (spriteIndex st) p],
                  spriteIndex := spriteIndex st + advance p\<rparr>"
    using chop_pokemon_emit [of p e img data h w st st1] by simp
  with a show "spriteIndex st1 = spriteIndex st + 1"
    and "length (encoded st1) = length (encoded st) + 1"
    by (simp_all add: advance_def)
next
  assume "chop_loop e img data h w st ps = Inr st2"
  from chop_loop_result [OF this]
  show "spriteIndex st2 = spriteIndex st + sum_list (map advance ps)"
    by simp
next
  assume run: "chop_sheet e img data = Inr st3"
  then have "Rows data \<noteq> 0" and "Columns data \<noteq> 0"
    by (auto simp add: chop_sheet_zero)
  from run [unfolded chop_sheet_loop [OF this]] chop_loop_result
  show "spriteIndex st3 = sum_list (map advance (Pokemon data))"
    by (fastforce simp add: json_start_def)
next
  show "chop_loop e img data h w json_start [skipped 2, skipped 0, skipped 3]
        = Inr (json_start\<lparr>spriteIndex := 6\<rparr>)"
    by (simp add: chop_pokemon_def skipped_def json_start_def)
qed

theorem cursor_advance_witness:
  "Skip (skipped 0)
   \<and> chop_pokemon sheet_env sheet_img sheet_data 15 10 json_start (skipped 0)
       = Inr (json_start\<lparr>spriteIndex := 1\<rparr>)
   \<and> chop_sheet sheet_env sheet_img sheet_data
       = Inr \<lparr>stdout = [], stderr = [], created = map name sheet_sprites,
              encoded = sheet_sprites, spriteIndex = 4\<rparr>
   \<and> sum_list (map advance (Pokemon sheet_data)) = 4"
  using cursor_advance [of "skipped 0" sheet_env sheet_img sheet_data 15 10 json_start
      json_start "[]" json_start
      "\<lparr>stdout = [], stderr = [], created = map name sheet_sprites,
              encoded = sheet_sprites, spriteIndex = 4\<rparr>"]
  by (simp add: sheet_run skipped_def json_start_def)

section \<open>Selectors and filenames\<close>

lemma id_selector_switch:
  "id' (selector_switch v s) = (if base_segment s then s else id' v)"
  by (simp add: selector_switch_def base_segment_def)

lemma id_foldl_selector_switch:
  "id' (foldl selector_switch v segs) =
     (if filter base_segment segs = [] then id' v else last (filter base_segment segs))"
  by (induction segs rule: rev_induct) (simp_all add: id_selector_switch)

lemma color_prefix_is_base:
  assumes "HasPrefix s ''color-''" and "s \<noteq> ''color-shiny''"
  shows "base_segment s"
proof -
  from assms(1) obtain r where s: "s = ''color-'' @ r"
    by (metis HasPrefix_def append_take_drop_id)
  show ?thesis
    using assms(2) unfolding s by (simp add: base_segment_def HasPrefix_def)
qed

text \<open>
  Claim C9. In \<^verbatim>\<open>scssSelectorToFilename\<close> the base token is the last segment that is not
  exactly \<^verbatim>\<open>color-shiny\<close> and starts with none of \<^verbatim>\<open>form-\<close>, \<^verbatim>\<open>game-family-\<close>, \<^verbatim>\<open>pkicon-\<close>
  (and it is empty when there is no such segment): the switch takes each such segment as
  the base token and leaves the base token alone on any other. A segment with the prefix \<^verbatim>\<open>color-\<close>
  other than \<^verbatim>\<open>color-shiny\<close> is such a segment: it replaces whatever base token was there,
  so \<^verbatim>\<open>001.color-regular\<close> is written to \<^verbatim>\<open>color-regular.png\<close> where \<^verbatim>\<open>001\<close> alone gives
  \<^verbatim>\<open>001.png\<close>.
\<close>

theorem base_token_last_wins:
  "id' (selector_scan parts) =
     (if filter base_segment (Split parts (CHR ''.'')) = [] then []
      else last (filter base_segment (Split parts (CHR ''.''))))
   \<and> (\<forall>v s. HasPrefix s ''color-'' \<and> s \<noteq> ''color-shiny''
          \<longrightarrow> base_segment s \<and> id' (selector_switch v s) = s)
   \<and> scssSelectorToFilename ''001'' = ''001.png''
   \<and> scssSelectorToFilename ''001.color-regular'' = ''color-regular.png''
   \<and> id' (selector_switch w t) = (if base_segment t then t else id' w)"
proof (intro conjI allI impI)
  show "id' (selector_switch w t) = (if base_segment t then t else id' w)"
    by (rule id_selector_switch)
next
  show "id' (selector_scan parts) =
     (if filter base_segment (Split parts (CHR ''.'')) = [] then []
      else last (filter base_segment (Split parts (CHR ''.''))))"
    by (simp add: selector_scan_def id_foldl_selector_switch selector_start_def)
next
  fix v s assume "HasPrefix s ''color-'' \<and> s \<noteq> ''color-shiny''"
  then show "base_segment s" by (simp add: color_prefix_is_base)
next
  fix v s assume "HasPrefix s ''color-'' \<and> s \<noteq> ''color-shiny''"
  then show "id' (selector_switch v s) = s"
    by (simp add: id_selector_switch color_prefix_is_base)
next
  show "scssSelectorToFilename ''001'' = ''001.png''"
    by (simp add: scssSelectorToFilename_def selector_scan_def selector_switch_def
        selector_start_def selector_name_def HasPrefix_def TrimPrefix_def)
next
  show "scssSelectorToFilename ''001.color-regular'' = ''color-regular.png''"
    by (simp add: scssSelectorToFilename_def selector_scan_def selector_switch_def
        selector_start_def selector_name_def HasPrefix_def TrimPrefix_def)
qed

theorem base_token_last_wins_witness:
  "id' (selector_scan ''001.form-cap.color-regular'') = ''color-regular''
   \<and> HasPrefix ''color-regular'' ''color-''
   \<and> base_segment ''color-regular''
   \<and> id' (selector_switch selector_start ''color-regular'') = ''color-regular''"
  using base_token_last_wins [of "''001.form-cap.color-regular''"]
  by (simp add: base_segment_def HasPrefix_def)

text \<open>
  Claim C5. Whenever the base token found in a selector is \<^verbatim>\<open>ball-love\<close>, the filename is
  \<^verbatim>\<open>love-ball.png\<close>, whatever shiny, form and game-family segments the selector carries.
\<close>

theorem love_ball_filename:
  "id' (selector_scan parts) = ''ball-love'' \<Longrightarrow> scssSelectorToFilename parts = ''love-ball.png''"
  by (simp add: scssSelectorToFilename_def selector_name_def)

theorem love_ball_filename_witness:
  "id' (selector_scan ''ball-love.color-shiny.form-cap.game-family-legends_arceus'') = ''ball-love''
   \<and> scssSelectorToFilename ''ball-love.color-shiny.form-cap.game-family-legends_arceus''
       = ''love-ball.png''"
proof -
  have h: "id' (selector_scan ''ball-love.color-shiny.form-cap.game-family-legends_arceus'')
      = ''ball-love''"
    by (simp add: selector_scan_def selector_switch_def selector_start_def HasPrefix_def
        TrimPrefix_def)
  show ?thesis
    using h love_ball_filename [OF h] by simp
qed

text \<open>
  Claim C4, as the code has it. The name composed from a stylesheet selector is the base
  token, then \<^verbatim>\<open>-shiny\<close> if shiny, then \<^verbatim>\<open>-<gameFamily>\<close> and \<^verbatim>\<open>-<form>\<close> if they are not
  empty, then \<^verbatim>\<open>.png\<close>, provided the base token is neither empty nor \<^verbatim>\<open>ball-love\<close>; with the
  base token \<^verbatim>\<open>ball-love\<close> it is \<^verbatim>\<open>love-ball.png\<close> and with an empty base token it is empty,
  whatever the modifiers. The file of a grid entry, written under \<^verbatim>\<open>./images/\<close>, has the
  name made of the id, then \<^verbatim>\<open>-<suffix>\<close> and \<^verbatim>\<open>-<form>\<close> if present, then \<^verbatim>\<open>.png\<close>, where an
  id from 0 to 999 is written with three digits, zeros first, and an id from 1000 on with
  all its digits. The two examples of the specification come out as it says.
\<close>

theorem filename_policy:
  "(id' v \<noteq> [] \<and> id' v \<noteq> ''ball-love'' \<longrightarrow>
      selector_name v =
        id' v @ (if shiny v then ''-shiny'' else [])
          @ (if gameFamily v \<noteq> [] then ''-'' @ gameFamily v else [])
          @ (if form v \<noteq> [] then ''-'' @ form v else []) @ ''.png'')
   \<and> (id' v = ''ball-love'' \<longrightarrow> selector_name v = ''love-ball.png'')
   \<and> (id' v = [] \<longrightarrow> selector_name v = [])
   \<and> scssSelectorToFilename parts = selector_name (selector_scan parts)
   \<and> outName data p =
       ''./images/'' @ Sprintf_03d (ID p)
         @ (case Suffix data of None \<Rightarrow> [] | Some s \<Rightarrow> ''-'' @ s)
         @ (case Form p of None \<Rightarrow> [] | Some f \<Rightarrow> ''-'' @ f) @ ''.png''
   \<and> (\<not> ID p <s 0 \<and> ID p <s 1000 \<longrightarrow>
        Sprintf_03d (ID p) =
          [digit_char (nat (sint (ID p)) div 100), digit_char (nat (sint (ID p)) div 10 mod 10),
           digit_char (nat (sint (ID p)) mod 10)])
   \<and> (\<not> ID p <s 1000 \<longrightarrow> Sprintf_03d (ID p) = decimal (nat (sint (ID p))))
   \<and> scssSelectorToFilename ''025.form-cap.game-family-legends_arceus.color-shiny''
       = ''025-shiny-legends_arceus-cap.png''
   \<and> outName sheet_data \<lparr>ID = 25, Form = Some ''cap'', Skip = False, SkipCount = 0\<rparr>
       = ''./images/025-legends_arceus-cap.png''"
proof (intro conjI impI)
  assume "id' v \<noteq> [] \<and> id' v \<noteq> ''ball-love''"
  then show "selector_name v =
        id' v @ (if shiny v then ''-shiny'' else [])
          @ (if gameFamily v \<noteq> [] then ''-'' @ gameFamily v else [])
          @ (if form v \<noteq> [] then ''-'' @ form v else []) @ ''.png''"
    by (simp add: selector_name_def)
next
  assume "id' v = ''ball-love''"
  then show "selector_name v = ''love-ball.png''"
    by (simp add: selector_name_def)
next
  assume "id' v = []"
  then show "selector_name v = []"
    by (simp add: selector_name_def)
next
  show "scssSelectorToFilename parts = selector_name (selector_scan parts)"
    by (simp add: scssSelectorToFilename_def)
next
  show "outName data p =
       ''./images/'' @ Sprintf_03d (ID p)
         @ (case Suffix data of None \<Rightarrow> [] | Some s \<Rightarrow> ''-'' @ s)
         @ (case Form p of None \<Rightarrow> [] | Some f \<Rightarrow> ''-'' @ f) @ ''.png''"
    by (simp add: outName_def split: option.split)
next
  assume "\<not> ID p <s 0 \<and> ID p <s 1000"
  then show "Sprintf_03d (ID p) =
          [digit_char (nat (sint (ID p)) div 100), digit_char (nat (sint (ID p)) div 10 mod 10),
           digit_char (nat (sint (ID p)) mod 10)]"
    by (simp add: Sprintf_03d_three_digits)
next
  assume "\<not> ID p <s 1000"
  then show "Sprintf_03d (ID p) = decimal (nat (sint (ID p)))"
    by (rule Sprintf_03d_long)
next
  show "scssSelectorToFilename ''025.form-cap.game-family-legends_arceus.color-shiny''
       = ''025-shiny-legends_arceus-cap.png''"
    by (simp add: scssSelectorToFilename_def selector_scan_def selector_switch_def
        selector_start_def selector_name_def HasPrefix_def TrimPrefix_def)
next
  show "outName sheet_data \<lparr>ID = 25, Form = Some ''cap'', Skip = False, SkipCount = 0\<rparr>
       = ''./images/025-legends_arceus-cap.png''"
    by (simp add: sheet_data_def outName_def Sprintf_03d_def magnitude_def digit_char_def
        word_sless_alt zero_pad_3 decimal.simps)
qed

theorem filename_policy_witness:
  "id' (selector_scan ''025.form-cap.game-family-legends_arceus.color-shiny'') = ''025''
   \<and> selector_name (selector_scan ''025.form-cap.game-family-legends_arceus.color-shiny'')
       = ''025-shiny-legends_arceus-cap.png''
   \<and> selector_name \<lparr>id' = ''ball-love'', form = ''cap'', gameFamily = ''legends_arceus'', shiny = True\<rparr>
       = ''love-ball.png''
   \<and> selector_name \<lparr>id' = [], form = ''cap'', gameFamily = ''legends_arceus'', shiny = True\<rparr> = []
   \<and> \<not> (7 :: go_int) <s 0 \<and> (7 :: go_int) <s 1000
   \<and> Sprintf_03d 7 = ''007''
   \<and> \<not> (1025 :: go_int) <s 1000
   \<and> Sprintf_03d 1025 = ''1025''"
proof -
  let ?p7 = "\<lparr>ID = 7, Form = None, Skip = False, SkipCount = 0\<rparr>"
  let ?p1025 = "\<lparr>ID = 1025, Form = None, Skip = False, SkipCount = 0\<rparr>"
  have v: "selector_scan ''025.form-cap.game-family-legends_arceus.color-shiny''
      = \<lparr>id' = ''025'', form = ''cap'', gameFamily = ''legends_arceus'', shiny = True\<rparr>"
    by (simp add: selector_scan_def selector_switch_def selector_start_def HasPrefix_def
        TrimPrefix_def)
  have n1: "selector_name
      \<lparr>id' = ''025'', form = ''cap'', gameFamily = ''legends_arceus'', shiny = True\<rparr>
      = ''025-shiny-legends_arceus-cap.png''"
    using filename_policy [of
      "\<lparr>id' = ''025'', form = ''cap'', gameFamily = ''legends_arceus'', shiny = True\<rparr>"
      "[]" sheet_data ?p7, THEN conjunct1]
    by simp
  have n2: "selector_name
      \<lparr>id' = ''ball-love'', form = ''cap'', gameFamily = ''legends_arceus'', shiny = True\<rparr>
      = ''love-ball.png''"
    using filename_policy [of
      "\<lparr>id' = ''ball-love'', form = ''cap'', gameFamily = ''legends_arceus'', shiny = True\<rparr>"
      "[]" sheet_data ?p7, THEN conjunct2, THEN conjunct1]
    by simp
  have n3: "selector_name
      \<lparr>id' = [], form = ''cap'', gameFamily = ''legends_arceus'', shiny = True\<rparr> = []"
    using filename_policy [of
      "\<lparr>id' = [], form = ''cap'', gameFamily = ''legends_arceus'', shiny = True\<rparr>"
      "[]" sheet_data ?p7, THEN conjunct2, THEN conjunct2, THEN conjunct1]
    by simp
  have r7: "\<not> (7 :: go_int) <s 0" "(7 :: go_int) <s 1000"
    and r1025: "\<not> (1025 :: go_int) <s 1000"
    by (simp_all add: word_sless_alt)
  have s7: "Sprintf_03d 7 = ''007''"
    using filename_policy [of selector_start "[]" sheet_data ?p7, THEN conjunct2, THEN conjunct2,
        THEN conjunct2, THEN conjunct2, THEN conjunct2, THEN conjunct1] r7
    by (simp add: digit_char_def)
  have "Sprintf_03d 1025 = decimal 1025"
    using filename_policy [of selector_start "[]" sheet_data ?p1025, THEN conjunct2,
        THEN conjunct2, THEN conjunct2, THEN conjunct2, THEN conjunct2, THEN conjunct2,
        THEN conjunct1] r1025
    by simp
  also have "decimal 1025 = ''1025''"
    by (simp add: decimal.simps digit_char_def)
  finally have s1025: "Sprintf_03d 1025 = ''1025''" .
  from v n1 n2 n3 r7 r1025 s7 s1025 show ?thesis
    by simp
qed

text \<open>
  The patterns do not hold for every identity: with the base token \<^verbatim>\<open>ball-love\<close> the name is
  \<^verbatim>\<open>love-ball.png\<close> and not \<^verbatim>\<open>ball-love-shiny.png\<close>, with an empty base token it is empty,
  and the id 1025 of a grid entry is written with four digits.
\<close>

theorem love_ball_breaks_pattern:
  "id' (selector_scan ''ball-love.color-shiny'') = ''ball-love''
   \<and> shiny (selector_scan ''ball-love.color-shiny'')
   \<and> scssSelectorToFilename ''ball-love.color-shiny'' = ''love-ball.png''
   \<and> scssSelectorToFilename ''ball-love.color-shiny'' \<noteq> ''ball-love-shiny.png''
   \<and> id' (selector_scan ''form-cap'') = []
   \<and> form (selector_scan ''form-cap'') = ''cap''
   \<and> scssSelectorToFilename ''form-cap'' = []
   \<and> scssSelectorToFilename ''form-cap'' \<noteq> ''-cap.png''
   \<and> outName sheet_data \<lparr>ID = 1025, Form = None, Skip = False, SkipCount = 0\<rparr>
       = ''./images/1025-legends_arceus.png''"
proof -
  have "outName sheet_data \<lparr>ID = 1025, Form = None, Skip = False, SkipCount = 0\<rparr>
       = ''./images/1025-legends_arceus.png''"
    by (simp add: sheet_data_def outName_def Sprintf_03d_def magnitude_def digit_char_def
        word_sless_alt zero_pad_def decimal.simps)
  then show ?thesis
    by (simp add: scssSelectorToFilename_def selector_scan_def selector_switch_def
        selector_start_def selector_name_def HasPrefix_def TrimPrefix_def)
qed

section \<open>Stylesheet mode\<close>

text \<open>Once the stylesheet and the sheet are read, \<^verbatim>\<open>chopFromSCSS\<close> is the loop over the lines.\<close>

lemma chopFromSCSS_lines:
  assumes "ReadFile e scssPath = Some raw"
    and "Open e (Join e (Dir e scssPath) ''pokesprite.png'') = Some imgFile"
    and "Decode e imgFile = Some img"
  shows "chopFromSCSS e scssPath = chop_lines e img no_effects (Split raw newline)"
  using assms by (simp add: chopFromSCSS_def)

lemma count_list_append: "count_list (xs @ ys) x = count_list xs x + count_list ys x"
  by (induction xs) simp_all

lemma count_list_absent: "x \<notin> set xs \<Longrightarrow> count_list xs x = 0"
  by (induction xs) auto

lemma skip_message_one_line:
  assumes "newline \<notin> set out"
  shows "count_list (skip_message out srcX srcY w h) newline = 1"
    and "last (skip_message out srcX srcY w h) = newline"
proof -
  have i: "count_list (Itoa i) newline = 0" for i
    by (simp add: count_list_absent Itoa_no_newline)
  have out: "count_list out newline = 0"
    using assms by (simp add: count_list_absent)
  show "count_list (skip_message out srcX srcY w h) newline = 1"
    by (simp add: skip_message_def count_list_append i out) (simp add: newline_def)
  show "last (skip_message out srcX srcY w h) = newline"
    by (simp add: skip_message_def)
qed

lemma append_effects_empty [simp]:
  "append_effects st no_effects = st" "append_effects no_effects st = st"
  by (simp_all add: append_effects_def no_effects_def)

lemma append_effects_assoc:
  "append_effects (append_effects a b) c = append_effects a (append_effects b c)"
  by (simp add: append_effects_def)

lemma after_after: "after a (after b r) = after (append_effects a b) r"
  by (simp add: after_def append_effects_assoc split: sum.split prod.split)

lemma chop_line_after:
  "chop_line e img st line = after st (chop_line e img no_effects line)"
  by (simp add: chop_line_def after_def append_effects_def no_effects_def Let_def
      split: option.split prod.split)

lemma chop_lines_after:
  "chop_lines e img st ls = after st (chop_lines e img no_effects ls)"
proof (induction ls arbitrary: st)
  case Nil
  show ?case by (simp add: after_def)
next
  case (Cons l ls)
  show ?case
  proof (cases "chop_line e img no_effects l")
    case (Inl failure)
    then show ?thesis
      by (simp add: chop_line_after [of e img st] after_def split: prod.split)
  next
    case (Inr d)
    then have "chop_lines e img st (l # ls) = chop_lines e img (append_effects st d) ls"
      by (simp add: chop_line_after [of e img st] after_def)
    also have "\<dots> = after (append_effects st d) (chop_lines e img no_effects ls)"
      by (rule Cons.IH)
    also have "\<dots> = after st (after d (chop_lines e img no_effects ls))"
      by (simp add: after_after)
    also have "after d (chop_lines e img no_effects ls) = chop_lines e img d ls"
      by (rule Cons.IH [symmetric])
    also have "chop_lines e img d ls = chop_lines e img no_effects (l # ls)"
      by (simp add: Inr)
    finally show ?thesis .
  qed
qed

lemma scss_numbers:
  "atoi scss_env ''20'' = 20" "atoi scss_env ''10'' = 10" "atoi scss_env ''-5'' = - 5"
  "atoi scss_env ''-1'' = - 1" "atoi scss_env ''-2'' = - 2"
  by (simp_all add: atoi_def scss_env_def sheet_env_def atoi'_def Atoi_def is_digit_def
      digit_value_def)

lemma scss_names:
  "scssSelectorToFilename ''001'' = ''001.png''"
  "scssSelectorToFilename ''form-alola'' = []"
  "scssSelectorToFilename ''025.color-shiny'' = ''025-shiny.png''"
  by (simp_all add: scssSelectorToFilename_def selector_scan_def selector_switch_def
      selector_start_def selector_name_def HasPrefix_def TrimPrefix_def)

lemma scss_matches:
  "lineRE scss_env rule_outside = Some (''001'', ''20'', ''20'', ''-5'', ''-5'')"
  "lineRE scss_env rule_without_token = Some (''form-alola'', ''20'', ''20'', ''-5'', ''-5'')"
  "lineRE scss_env rule_inside = Some (''025.color-shiny'', ''10'', ''10'', ''-1'', ''-2'')"
  by (simp_all add: scss_env_def sheet_env_def rule_outside_def rule_without_token_def
      rule_inside_def)

lemma scss_message:
  "skip_message ''001.png'' 5 5 20 20
     = ''chop: skip 001.png (bounds 5,5 20x20 outside image)'' @ [newline]"
  by (simp add: skip_message_def Itoa_def magnitude_def word_sless_alt decimal.simps
      digit_char_def)

lemma scss_inside:
  "chop_line scss_env scss_img no_effects rule_inside =
     Inr \<lparr>stdout = [], stderr = [], created = [''images/025-shiny.png''],
          encoded = [\<lparr>name = ''images/025-shiny.png'',
                      bounds = \<lparr>Min_pt = \<lparr>X = 0, Y = 0\<rparr>, Max_pt = \<lparr>X = 10, Y = 10\<rparr>\<rparr>,
                      src_point = \<lparr>X = 1, Y = 2\<rparr>\<rparr>]\<rparr>"
  by (simp add: chop_line_def scss_matches scss_numbers scss_names Let_def)
    (simp add: scss_env_def sheet_env_def scss_img_def Rect_def Dx_def Dy_def no_effects_def
      word_sless_alt)

text \<open>
  Claim C6, as the code has it. For a matching line whose selector gives a filename that
  is not empty and whose rectangle leaves the sheet (\<open>srcX < 0\<close>, \<open>srcY < 0\<close>,
  \<open>srcX + w > Dx\<close> or \<open>srcY + h > Dy\<close>, in Go's arithmetic), the loop body returns without a
  panic, creates and encodes no file, and writes exactly one message to standard error
  (one line, when the filename holds no line break); the lines after it are processed as
  they would be on their own, their effects coming behind that message.
\<close>

theorem bounds_skip:
  assumes "lineRE e line = Some (sel, m2, m3, m4, m5)"
    and "scssSelectorToFilename sel \<noteq> []"
    and "- atoi e m4 <s 0 \<or> - atoi e m5 <s 0
         \<or> Dx (Bounds img) <s - atoi e m4 + atoi e m2
         \<or> Dy (Bounds img) <s - atoi e m5 + atoi e m3"
    and "msg = skip_message (scssSelectorToFilename sel) (- atoi e m4) (- atoi e m5)
                 (atoi e m2) (atoi e m3)"
  shows "chop_line e img st line = Inr (st\<lparr>stderr := stderr st @ [msg]\<rparr>)
     \<and> chop_lines e img st (line # rest) =
         after (st\<lparr>stderr := stderr st @ [msg]\<rparr>) (chop_lines e img no_effects rest)
     \<and> (newline \<notin> set (scssSelectorToFilename sel) \<longrightarrow>
          count_list msg newline = 1 \<and> last msg = newline)"
proof -
  have one: "chop_line e img st line = Inr (st\<lparr>stderr := stderr st @ [msg]\<rparr>)"
    using assms by (simp add: chop_line_def Let_def)
  then have "chop_lines e img st (line # rest) =
         after (st\<lparr>stderr := stderr st @ [msg]\<rparr>) (chop_lines e img no_effects rest)"
    by (simp add: chop_lines_after [symmetric])
  with one show ?thesis
    by (simp add: assms(4) skip_message_one_line)
qed

theorem bounds_skip_witness:
  "lineRE scss_env rule_outside = Some (''001'', ''20'', ''20'', ''-5'', ''-5'')
   \<and> scssSelectorToFilename ''001'' = ''001.png''
   \<and> Dx (Bounds scss_img) <s - atoi scss_env ''-5'' + atoi scss_env ''20''
   \<and> skip_message ''001.png'' 5 5 20 20
       = ''chop: skip 001.png (bounds 5,5 20x20 outside image)'' @ [newline]
   \<and> chop_lines scss_env scss_img no_effects [rule_outside, rule_inside] =
       Inr \<lparr>stdout = [],
            stderr = [''chop: skip 001.png (bounds 5,5 20x20 outside image)'' @ [newline]],
            created = [''images/025-shiny.png''],
            encoded = [\<lparr>name = ''images/025-shiny.png'',
                        bounds = \<lparr>Min_pt = \<lparr>X = 0, Y = 0\<rparr>, Max_pt = \<lparr>X = 10, Y = 10\<rparr>\<rparr>,
                        src_point = \<lparr>X = 1, Y = 2\<rparr>\<rparr>]\<rparr>"
proof -
  have h1: "lineRE scss_env rule_outside = Some (''001'', ''20'', ''20'', ''-5'', ''-5'')"
    by (rule scss_matches)
  have h2: "scssSelectorToFilename ''001'' \<noteq> []"
    by (simp add: scss_names)
  have out: "Dx (Bounds scss_img) <s - atoi scss_env ''-5'' + atoi scss_env ''20''"
    by (simp add: scss_numbers scss_img_def Dx_def word_sless_alt)
  then have h3: "- atoi scss_env ''-5'' <s 0 \<or> - atoi scss_env ''-5'' <s 0
         \<or> Dx (Bounds scss_img) <s - atoi scss_env ''-5'' + atoi scss_env ''20''
         \<or> Dy (Bounds scss_img) <s - atoi scss_env ''-5'' + atoi scss_env ''20''"
    by simp
  have h4: "''chop: skip 001.png (bounds 5,5 20x20 outside image)'' @ [newline]
      = skip_message (scssSelectorToFilename ''001'') (- atoi scss_env ''-5'')
          (- atoi scss_env ''-5'') (atoi scss_env ''20'') (atoi scss_env ''20'')"
    by (simp add: scss_names scss_numbers scss_message)
  have "chop_lines scss_env scss_img no_effects [rule_outside, rule_inside] =
       after (no_effects\<lparr>stderr := stderr no_effects @
                [''chop: skip 001.png (bounds 5,5 20x20 outside image)'' @ [newline]]\<rparr>)
         (chop_lines scss_env scss_img no_effects [rule_inside])"
    by (rule bounds_skip [OF h1 h2 h3 h4, of no_effects "[rule_inside]",
          THEN conjunct2, THEN conjunct1])
  also have "\<dots> =
       Inr \<lparr>stdout = [],
            stderr = [''chop: skip 001.png (bounds 5,5 20x20 outside image)'' @ [newline]],
            created = [''images/025-shiny.png''],
            encoded = [\<lparr>name = ''images/025-shiny.png'',
                        bounds = \<lparr>Min_pt = \<lparr>X = 0, Y = 0\<rparr>, Max_pt = \<lparr>X = 10, Y = 10\<rparr>\<rparr>,
                        src_point = \<lparr>X = 1, Y = 2\<rparr>\<rparr>]\<rparr>"
    by (simp add: scss_inside after_def append_effects_def) (simp add: no_effects_def)
  finally show ?thesis
    using h1 out by (simp add: scss_names scss_message)
qed

text \<open>
  Without the condition on the filename the statement fails: a matching line whose
  selector has no base token is dropped before the bounds are looked at, so a rectangle
  outside the sheet leaves no message.
\<close>

theorem no_diagnostic_without_token:
  "lineRE scss_env rule_without_token = Some (''form-alola'', ''20'', ''20'', ''-5'', ''-5'')
   \<and> Dx (Bounds scss_img) <s - atoi scss_env ''-5'' + atoi scss_env ''20''
   \<and> chop_line scss_env scss_img no_effects rule_without_token = Inr no_effects
   \<and> stderr no_effects = []"
  by (simp add: chop_line_def scss_matches scss_numbers scss_names Let_def)
    (simp add: scss_img_def Dx_def word_sless_alt no_effects_def)

section \<open>Wrong number of arguments\<close>

text \<open>With any number of arguments but one, \<^verbatim>\<open>main\<close> prints the usage and exits.\<close>

lemma usage_any_count:
  "length Args \<noteq> 2 \<Longrightarrow>
   main e Args =
     (Exit 1,
      \<lparr>stdout = [''Usage: task chop -- <filename.json|filename.scss>'' @ [newline],
                 ''  JSON: task chop -- ./data/spritesheet.json'' @ [newline],
                 ''  SCSS: task chop -- toExtractFrom/pokesprite.scss'' @ [newline]],
       stderr = [], created = [], encoded = []\<rparr>)"
  by (simp add: main_def Println_def no_effects_def)

text \<open>
  Claim C8. Started without a path argument, \<^verbatim>\<open>chop\<close> exits with status 1, but its three
  usage lines are printed with \<^verbatim>\<open>fmt.Println\<close>: they go to standard output, and nothing is
  written to standard error. (The positions program prints its usage to standard error.)
\<close>

theorem usage_goes_to_stdout:
  "main e [''chop''] =
     (Exit 1,
      \<lparr>stdout = [''Usage: task chop -- <filename.json|filename.scss>'' @ [newline],
                 ''  JSON: task chop -- ./data/spritesheet.json'' @ [newline],
                 ''  SCSS: task chop -- toExtractFrom/pokesprite.scss'' @ [newline]],
       stderr = [], created = [], encoded = []\<rparr>)"
  by (simp add: main_def Println_def no_effects_def)

section \<open>Keys and order of the position table\<close>

lemma position_line_rule:
  "position_line re acc line =
     (case re line of
        None \<Rightarrow> acc
      | Some m \<Rightarrow> ((fst acc)(fst (rule_of m) \<mapsto> snd (rule_of m)), snd acc @ [fst (rule_of m)]))"
  by (simp add: position_line_def rule_of_def Let_def split: option.split prod.split)

lemma foldl_position_line:
  "foldl (position_line re) acc ls =
     (fst acc ++ map_of (rev (map rule_of (List.map_filter re ls))),
      snd acc @ map fst (map rule_of (List.map_filter re ls)))"
proof (induction ls arbitrary: acc)
  case Nil
  show ?case by (simp add: map_filter_simps)
next
  case (Cons l ls)
  show ?case
  proof (cases "re l")
    case None
    then show ?thesis
      by (simp add: Cons.IH position_line_rule [of re acc l] map_filter_simps)
  next
    case (Some m)
    then show ?thesis
      by (simp add: Cons.IH position_line_rule [of re acc l] map_filter_simps)
        (auto simp add: map_add_def split: option.split)
  qed
qed

lemma map_of_rev_last:
  "map_of (rev rs) k =
     (if filter (\<lambda>r. fst r = k) rs = [] then None
      else Some (snd (last (filter (\<lambda>r. fst r = k) rs))))"
  by (induction rs rule: rev_induct) auto

text \<open>
  Claim C7, as the code has it. The map of \<^verbatim>\<open>extractSpritePositions\<close> gives a key the data of
  the last rule with that key, and the order lists the key of every rule, in the order of
  the lines: a key that \<open>n\<close> rules share stands \<open>n\<close> times in it.
\<close>

theorem positions_keep_every_occurrence:
  "snd (extractSpritePositions re scss) = map fst (rules re scss)
   \<and> fst (extractSpritePositions re scss) k =
       (if filter (\<lambda>r. fst r = k) (rules re scss) = [] then None
        else Some (snd (last (filter (\<lambda>r. fst r = k) (rules re scss)))))
   \<and> count_list (snd (extractSpritePositions re scss)) k
       = length (filter (\<lambda>r. fst r = k) (rules re scss))"
proof -
  have order: "snd (extractSpritePositions re scss) = map fst (rules re scss)"
    by (simp add: extractSpritePositions_def foldl_position_line rules_def)
  have "fst (extractSpritePositions re scss) = map_of (rev (rules re scss))"
    by (simp add: extractSpritePositions_def foldl_position_line rules_def)
  then have data: "fst (extractSpritePositions re scss) k =
       (if filter (\<lambda>r. fst r = k) (rules re scss) = [] then None
        else Some (snd (last (filter (\<lambda>r. fst r = k) (rules re scss)))))"
    by (simp add: map_of_rev_last)
  have "count_list (map fst rs) k = length (filter (\<lambda>r. fst r = k) rs)" for rs :: "(string \<times> SpritePosition) list"
    by (induction rs) simp_all
  with order data show ?thesis by simp
qed

text \<open>
  The order does not keep a key once only: two lines with the ids \<^verbatim>\<open>001\<close> and \<^verbatim>\<open>1\<close> put
  \<^verbatim>\<open>pokemon-1\<close> into it twice, and the map holds the data of the second.
\<close>

theorem duplicate_key_listed_twice:
  "snd (extractSpritePositions positions_re (rule_padded @ [newline] @ rule_plain))
     = [''pokemon-1'', ''pokemon-1'']
   \<and> fst (extractSpritePositions positions_re (rule_padded @ [newline] @ rule_plain)) ''pokemon-1''
     = Some \<lparr>Width = 30, Height = 31, BackgroundPosition = ''-5px -6px''\<rparr>"
  by (simp add: extractSpritePositions_def rule_padded_def rule_plain_def newline_def
      positions_re_def position_line_def sprite_key_def atoi'_def Atoi_def is_digit_def
      digit_value_def Itoa_def magnitude_def word_sless_alt decimal.simps digit_char_def Let_def)

text \<open>
  Claim C10, as the code has it. The key of a rule is \<^verbatim>\<open>pokemon-\<close>, the id read by
  \<^verbatim>\<open>strconv.Atoi\<close> and printed by \<^verbatim>\<open>strconv.Itoa\<close>, then \<^verbatim>\<open>-<form>\<close>, \<^verbatim>\<open>-<gameFamily>\<close> and
  \<^verbatim>\<open>-shiny\<close> in this order. For an id of digits whose value is below \<open>2 ^ 63\<close> the printed
  number is the id with its leading zeros stripped; from \<open>2 ^ 63\<close> on it is
  \<^verbatim>\<open>9223372036854775807\<close>. The token \<^verbatim>\<open>001\<close> gives the key \<^verbatim>\<open>pokemon-1\<close> where chop names the
  file \<^verbatim>\<open>001.png\<close>.
\<close>

theorem position_key_normalized:
  "sprite_key pokemonID f g color =
     ''pokemon-'' @ Itoa (atoi' pokemonID) @ (if f \<noteq> [] then ''-'' @ f else [])
       @ (if g \<noteq> [] then ''-'' @ g else []) @ (if color = ''shiny'' then ''-shiny'' else [])
   \<and> (pokemonID \<noteq> [] \<and> list_all is_digit pokemonID \<and> decimal_value pokemonID < 2 ^ 63
        \<longrightarrow> Itoa (atoi' pokemonID) = strip_zeros pokemonID)
   \<and> (pokemonID \<noteq> [] \<and> list_all is_digit pokemonID \<and> 2 ^ 63 \<le> decimal_value pokemonID
        \<longrightarrow> Itoa (atoi' pokemonID) = ''9223372036854775807'')
   \<and> sprite_key ''001'' [] [] [] = ''pokemon-1''
   \<and> scssSelectorToFilename ''001'' = ''001.png''
   \<and> sprite_key ''025'' ''cap'' ''legends_arceus'' ''shiny'' = ''pokemon-25-cap-legends_arceus-shiny''
   \<and> scssSelectorToFilename ''025.form-cap.game-family-legends_arceus.color-shiny''
        = ''025-shiny-legends_arceus-cap.png''"
proof (intro conjI impI)
  show "sprite_key pokemonID f g color =
     ''pokemon-'' @ Itoa (atoi' pokemonID) @ (if f \<noteq> [] then ''-'' @ f else [])
       @ (if g \<noteq> [] then ''-'' @ g else []) @ (if color = ''shiny'' then ''-shiny'' else [])"
    by (simp add: sprite_key_def)
next
  assume "pokemonID \<noteq> [] \<and> list_all is_digit pokemonID \<and> decimal_value pokemonID < 2 ^ 63"
  then show "Itoa (atoi' pokemonID) = strip_zeros pokemonID"
    by (simp add: atoi_digits Itoa_of_nat decimal_strip_zeros)
next
  assume "pokemonID \<noteq> [] \<and> list_all is_digit pokemonID \<and> 2 ^ 63 \<le> decimal_value pokemonID"
  then show "Itoa (atoi' pokemonID) = ''9223372036854775807''"
    by (simp add: atoi_digits Itoa_max)
next
  show "sprite_key ''001'' [] [] [] = ''pokemon-1''"
    by (simp add: sprite_key_def atoi'_def Atoi_def is_digit_def digit_value_def Itoa_def
        magnitude_def word_sless_alt decimal.simps digit_char_def)
next
  show "scssSelectorToFilename ''001'' = ''001.png''"
    by (simp add: scssSelectorToFilename_def selector_scan_def selector_switch_def
        selector_start_def selector_name_def HasPrefix_def TrimPrefix_def)
next
  show "sprite_key ''025'' ''cap'' ''legends_arceus'' ''shiny''
      = ''pokemon-25-cap-legends_arceus-shiny''"
    by (simp add: sprite_key_def atoi'_def Atoi_def is_digit_def digit_value_def Itoa_def
        magnitude_def word_sless_alt decimal.simps digit_char_def)
next
  show "scssSelectorToFilename ''025.form-cap.game-family-legends_arceus.color-shiny''
        = ''025-shiny-legends_arceus-cap.png''"
    by (simp add: scssSelectorToFilename_def selector_scan_def selector_switch_def
        selector_start_def selector_name_def HasPrefix_def TrimPrefix_def)
qed

theorem position_key_normalized_witness:
  "''0042'' \<noteq> [] \<and> list_all is_digit ''0042'' \<and> decimal_value ''0042'' < 2 ^ 63
   \<and> Itoa (atoi' ''0042'') = ''42''
   \<and> list_all is_digit ''18446744073709551616''
   \<and> 2 ^ 63 \<le> decimal_value ''18446744073709551616''
   \<and> Itoa (atoi' ''18446744073709551616'') = ''9223372036854775807''"
proof -
  have a: "list_all is_digit ''0042''" "decimal_value ''0042'' = 42"
    by (simp_all add: is_digit_def decimal_value_def digit_value_def)
  have b: "list_all is_digit ''18446744073709551616''"
    "decimal_value ''18446744073709551616'' = 2 ^ 64"
    by (simp_all add: is_digit_def decimal_value_def digit_value_def)
  from position_key_normalized [of "''0042''"]
    position_key_normalized [of "''18446744073709551616''"] a b
  show ?thesis
    by (simp add: strip_zeros_def)
qed

text \<open>
  An id of digits beyond the range of \<^verbatim>\<open>int\<close> does not keep its decimal value in the key.
\<close>

theorem position_key_saturates:
  "list_all is_digit ''9223372036854775808''
   \<and> sprite_key ''9223372036854775808'' [] [] [] = ''pokemon-9223372036854775807''
   \<and> sprite_key ''9223372036854775808'' [] [] [] \<noteq> ''pokemon-9223372036854775808''"
proof -
  have a: "list_all is_digit ''9223372036854775808''"
    "decimal_value ''9223372036854775808'' = 2 ^ 63"
    by (simp_all add: is_digit_def decimal_value_def digit_value_def)
  then have "atoi' ''9223372036854775808'' = 2 ^ 63 - 1"
    by (simp add: atoi_digits)
  with a(1) show ?thesis
    by (simp add: sprite_key_def Itoa_max)
qed

end
